theory Spec2Isabelle
  imports Main
begin


section \<open>Strings, errors and lexemes\<close>

text \<open>
  JavaScript strings are modelled as \<open>string\<close>, restricted to ASCII: \<open>toLowerCase\<close> folds
  the letters A to Z and \<open>toUpperCase\<close> the letters a to z, and the case mappings
  JavaScript has for letters outside ASCII are outside the model. Template literals that
  interpolate a number use \<open>string_of_nat\<close>.
\<close>

definition char_toLowerCase :: "char \<Rightarrow> char" where
  "char_toLowerCase c =
     (if 65 \<le> (of_char c :: nat) \<and> (of_char c :: nat) \<le> 90
      then char_of ((of_char c :: nat) + 32) else c)"

definition toLowerCase :: "string \<Rightarrow> string" where
  "toLowerCase s = map char_toLowerCase s"

definition char_toUpperCase :: "char \<Rightarrow> char" where
  "char_toUpperCase c =
     (if 97 \<le> (of_char c :: nat) \<and> (of_char c :: nat) \<le> 122
      then char_of ((of_char c :: nat) - 32) else c)"

definition toUpperCase :: "string \<Rightarrow> string" where
  "toUpperCase s = map char_toUpperCase s"

definition digit_char :: "nat \<Rightarrow> char" where
  "digit_char d = char_of (48 + d)"

function string_of_nat :: "nat \<Rightarrow> string" where
  "string_of_nat n =
     (if n < 10 then [digit_char n] else string_of_nat (n div 10) @ [digit_char (n mod 10)])"
  by pat_completeness auto
termination
  by (relation "measure (\<lambda>n. n)") auto

declare string_of_nat.simps [simp del]

fun startsWith :: "string \<Rightarrow> string \<Rightarrow> bool" where
  "startsWith s [] = True"
| "startsWith [] (p # ps) = False"
| "startsWith (c # cs) (p # ps) = (c = p \<and> startsWith cs ps)"

fun str_includes :: "string \<Rightarrow> string \<Rightarrow> bool" where
  "str_includes [] p = (p = [])"
| "str_includes (c # cs) p = (startsWith (c # cs) p \<or> str_includes cs p)"

text \<open>
  Every \<open>throw new Error(message)\<close> of the source is the value \<open>Error message\<close>.
  Reading a property of \<open>undefined\<close> (an array read past its end followed by
  \<open>.value\<close> or \<open>.type\<close>) raises the runtime's \<open>TypeError\<close>. A routine either
  returns a value (\<open>Some (Inr v)\<close>), throws (\<open>Some (Inl e)\<close>) or does not return
  (\<open>None\<close>).
\<close>

datatype error = Error string | TypeError

type_synonym 'a result = "(error + 'a) option"

definition and_then :: "'a result \<Rightarrow> ('a \<Rightarrow> 'b result) \<Rightarrow> 'b result" where
  "and_then r f = (case r of None \<Rightarrow> None | Some (Inl e) \<Rightarrow> Some (Inl e) | Some (Inr v) \<Rightarrow> f v)"

definition dquote :: string where
  "dquote = [char_of (34::nat)]"

text \<open>
  Modelled from the spec: the lexeme model (models/Lexeme) is not among the sources.
  A lexeme is a kind tag and a textual value; the kinds are the ones the spec lists.
\<close>

datatype TokenType =
    Identifier | Keyword | Literal | Operator | Comma | Dot
  | OpenParen | CloseParen | OpenBracket | CloseBracket | Parameter | Function

record Lexeme =
  lexType :: TokenType
  lexValue :: string

definition lexeme :: "TokenType \<Rightarrow> string \<Rightarrow> Lexeme" where
  "lexeme t v = \<lparr>lexType = t, lexValue = v\<rparr>"

text \<open>
  A parser routine takes the lexemes and a cursor and returns a node and the new cursor,
  or throws.
\<close>

type_synonym 'a parser = "Lexeme list \<Rightarrow> nat \<Rightarrow> ('a \<times> nat) result"

section \<open>SelectClauseParser (src/parsers/SelectParser.ts)\<close>

text \<open>
  \<open>ValueParser.Parse\<close> is not among the sources and is a parameter. A select component
  is a \<open>SelectItem\<close> (value and alias) or the bare value.
\<close>

datatype 'v SelectComponent = SelectItem 'v string | BareValue 'v

datatype 'v SelectClause = SelectClause "'v SelectComponent list"

definition ParseItem :: "'v parser \<Rightarrow> 'v SelectComponent parser" where
  "ParseItem valueParser lexemes index =
     and_then (valueParser lexemes index) (\<lambda>(v, idx0).
       let idx = (if idx0 < length lexemes \<and> lexValue (lexemes ! idx0) = ''as''
                  then idx0 + 1 else idx0)
       in if idx < length lexemes \<and> lexType (lexemes ! idx) = Identifier
          then Some (Inr (SelectItem v (lexValue (lexemes ! idx)), idx + 1))
          else Some (Inr (BareValue v, idx)))"

text \<open>
  The \<open>while\<close> loop of \<open>Parse\<close>: it runs as long as the cursor stands on a comma.
  Whether it ends depends on the value parser, so not returning is the value \<open>None\<close>.
\<close>

partial_function (option) ParseItems ::
  "'v parser \<Rightarrow> Lexeme list \<Rightarrow> 'v SelectComponent list \<Rightarrow> nat
     \<Rightarrow> ('v SelectComponent list \<times> nat) result" where
  "ParseItems valueParser lexemes items idx =
     (if idx < length lexemes \<and> lexType (lexemes ! idx) = Comma
      then (case ParseItem valueParser lexemes (idx + 1) of
              None \<Rightarrow> None
            | Some (Inl e) \<Rightarrow> Some (Inl e)
            | Some (Inr (item, n)) \<Rightarrow> ParseItems valueParser lexemes (items @ [item]) n)
      else Some (Inr (items, idx)))"

declare ParseItems.simps [code]

definition Parse :: "'v parser \<Rightarrow> 'v SelectClause parser" where
  "Parse valueParser lexemes index =
     (if length lexemes \<le> index then Some (Inl TypeError)
      else if lexValue (lexemes ! index) \<noteq> ''select''
      then Some (Inl (Error (''Expected 'SELECT' at index '' @ string_of_nat index)))
      else and_then (ParseItem valueParser lexemes (index + 1)) (\<lambda>(item, n).
           and_then (ParseItems valueParser lexemes [item] n) (\<lambda>(items, idx).
             if items = []
             then Some (Inl (Error (''No select items found at index '' @ string_of_nat index)))
             else Some (Inr (SelectClause items, idx)))))"

text \<open>
  \<open>ParseFromText\<close>: the tokenizer (\<open>SqlTokenizer.readLexmes\<close>, not among the sources) is
  a parameter; the lexemes are parsed from cursor 0 and a leftover lexeme is an error.
\<close>

definition ParseFromText ::
  "(string \<Rightarrow> Lexeme list result) \<Rightarrow> 'v parser \<Rightarrow> string \<Rightarrow> 'v SelectClause result" where
  "ParseFromText readLexmes valueParser query =
     and_then (readLexmes query) (\<lambda>lexemes.
     and_then (Parse valueParser lexemes 0) (\<lambda>(clause, newIndex).
       if newIndex < length lexemes
       then Some (Inl (Error (''Unexpected token at index '' @ string_of_nat newIndex
               @ '': '' @ lexValue (lexemes ! newIndex))))
       else Some (Inr clause)))"

section \<open>SourceParser (src/parsers/SourceParser.ts)\<close>

text \<open>
  \<open>SelectQueryParser.parse\<close> (for a subquery) and \<open>ValueParser.parseArgument\<close> (for a
  function source) are parameters of the source parser: the first closes a recursion
  through the FROM clause parser, the second is not among the sources.
\<close>

datatype ('q, 'a) SourceComponent =
    TableSource "string list option" string
  | FunctionSource string 'a
  | SubQuerySource 'q

function parseTableIdentifiers :: "Lexeme list \<Rightarrow> string list \<Rightarrow> nat \<Rightarrow> string list \<times> nat" where
  "parseTableIdentifiers lexemes identifiers idx =
     (if idx < length lexemes \<and> idx + 1 < length lexemes
         \<and> lexType (lexemes ! idx) = Dot \<and> lexType (lexemes ! (idx + 1)) = Identifier
      then parseTableIdentifiers lexemes (identifiers @ [lexValue (lexemes ! (idx + 1))]) (idx + 2)
      else (identifiers, idx))"
  by pat_completeness auto
termination
  by (relation "measure (\<lambda>(lexemes, identifiers, idx). length lexemes - idx)") auto

declare parseTableIdentifiers.simps [simp del]

definition parseTableSource :: "(('q, 'a) SourceComponent) parser" where
  "parseTableSource lexemes index =
     (if length lexemes \<le> index then Some (Inl TypeError)
      else (case parseTableIdentifiers lexemes [lexValue (lexemes ! index)] (index + 1) of
              (identifiers, idx) \<Rightarrow>
                if length identifiers > 1
                then Some (Inr (TableSource (Some (butlast identifiers)) (last identifiers), idx))
                else Some (Inr (TableSource None (identifiers ! 0), idx))))"

definition parseFunctionSource ::
  "(TokenType \<Rightarrow> TokenType \<Rightarrow> 'a parser) \<Rightarrow> (('q, 'a) SourceComponent) parser" where
  "parseFunctionSource parseArgument lexemes index =
     (if length lexemes \<le> index then Some (Inl TypeError)
      else and_then (parseArgument OpenParen CloseParen lexemes (index + 1)) (\<lambda>(argument, idx).
             Some (Inr (FunctionSource (lexValue (lexemes ! index)) argument, idx))))"

definition parseSubQuerySource :: "'q parser \<Rightarrow> (('q, 'a) SourceComponent) parser" where
  "parseSubQuerySource selectQueryParser lexemes index =
     and_then (selectQueryParser lexemes index) (\<lambda>(selectQuery, idx).
       Some (Inr (SubQuerySource selectQuery, idx)))"

definition closeParen :: "Lexeme list \<Rightarrow> ('s \<times> nat) \<Rightarrow> ('s \<times> nat) result" where
  "closeParen lexemes r =
     (case r of (v, idx) \<Rightarrow>
        if idx < length lexemes \<and> lexType (lexemes ! idx) = CloseParen
        then Some (Inr (v, idx + 1))
        else Some (Inl (Error (''Expected closing parenthesis at index '' @ string_of_nat idx))))"

function parseParenSource :: "'q parser \<Rightarrow> (('q, 'a) SourceComponent) parser" where
  "parseParenSource selectQueryParser lexemes index =
     (if length lexemes \<le> Suc index
      then Some (Inl (Error (''Unexpected end of input at index '' @ string_of_nat (Suc index))))
      else if lexValue (lexemes ! Suc index) = ''select''
      then (case parseSubQuerySource selectQueryParser lexemes (Suc index) of
              None \<Rightarrow> None
            | Some (Inl e) \<Rightarrow> Some (Inl e)
            | Some (Inr r) \<Rightarrow> closeParen lexemes r)
      else if lexType (lexemes ! Suc index) = OpenParen
      then (case parseParenSource selectQueryParser lexemes (Suc index) of
              None \<Rightarrow> None
            | Some (Inl e) \<Rightarrow> Some (Inl e)
            | Some (Inr r) \<Rightarrow> closeParen lexemes r)
      else Some (Inl (Error (''Expected 'SELECT' or '(' at index '' @ string_of_nat (Suc index)))))"
  by pat_completeness auto
termination
  by (relation "measure (\<lambda>(selectQueryParser, lexemes, index). length lexemes - index)") auto

declare parseParenSource.simps [simp del]

definition SourceParser_parse ::
  "'q parser \<Rightarrow> (TokenType \<Rightarrow> TokenType \<Rightarrow> 'a parser) \<Rightarrow> (('q, 'a) SourceComponent) parser" where
  "SourceParser_parse selectQueryParser parseArgument lexemes index =
     (if index < length lexemes \<and> lexType (lexemes ! index) = OpenParen
      then parseParenSource selectQueryParser lexemes index
      else if index < length lexemes \<and> lexType (lexemes ! index) = Function
      then parseFunctionSource parseArgument lexemes index
      else parseTableSource lexemes index)"

section \<open>SelectQueryParser (src/parsers/SelectQueryParser.ts)\<close>

text \<open>
  The clause parsers the top-level select parser calls are parameters (of the clause
  parsers only the select clause parser above is among the sources). The query node is
  built by \<open>new SelectQuery(...)\<close> from the clauses in the constructor's order.
\<close>

record 'c ClauseParsers =
  WithClauseParser :: "'c parser"
  SelectClauseParser :: "'c parser"
  FromClauseParser :: "'c parser"
  WhereClauseParser :: "'c parser"
  GroupByClauseParser :: "'c parser"
  HavingClauseParser :: "'c parser"
  WindowClauseParser :: "'c parser"
  OrderByClauseParser :: "'c parser"
  LimitClauseParser :: "'c parser"
  ForClauseParser :: "'c parser"

record 'c SelectQuery =
  withClause :: "'c option"
  selectClause :: "'c"
  fromClause :: "'c option"
  whereClause :: "'c option"
  groupByClause :: "'c option"
  havingClause :: "'c option"
  orderByClause :: "'c option"
  windowFrameClause :: "'c option"
  limitClause :: "'c option"
  forClause :: "'c option"

text \<open>
  Each optional clause of \<open>parse\<close> has the same shape: when the cursor is inside the
  stream and the lowercased lexeme is the clause keyword, the clause parser runs and the
  cursor moves to its new index; otherwise the clause is \<open>null\<close>.
\<close>

definition optionalClause :: "string \<Rightarrow> 'c parser \<Rightarrow> ('c option) parser" where
  "optionalClause kw clauseParser lexemes idx =
     (if idx < length lexemes \<and> toLowerCase (lexValue (lexemes ! idx)) = kw
      then and_then (clauseParser lexemes idx) (\<lambda>(v, newIndex). Some (Inr (Some v, newIndex)))
      else Some (Inr (None, idx)))"

definition expectedSelectMessage :: "Lexeme list \<Rightarrow> nat \<Rightarrow> string" where
  "expectedSelectMessage lexemes idx =
     ''Syntax error at position '' @ string_of_nat idx
     @ '': Expected 'SELECT' keyword but found '' @ dquote
     @ (if idx < length lexemes then lexValue (lexemes ! idx) else ''end of input'')
     @ dquote @ ''. SELECT queries must start with the SELECT keyword.''"

definition parse :: "'c ClauseParsers \<Rightarrow> ('c SelectQuery) parser" where
  "parse ps lexemes index =
     and_then (optionalClause ''with'' (WithClauseParser ps) lexemes index) (\<lambda>(withClauseResult, idx1).
       if length lexemes \<le> idx1 \<or> toLowerCase (lexValue (lexemes ! idx1)) \<noteq> ''select''
       then Some (Inl (Error (expectedSelectMessage lexemes idx1)))
       else
     and_then (SelectClauseParser ps lexemes idx1) (\<lambda>(selectClauseResult, idx2).
     and_then (optionalClause ''from'' (FromClauseParser ps) lexemes idx2) (\<lambda>(fromClauseResult, idx3).
     and_then (optionalClause ''where'' (WhereClauseParser ps) lexemes idx3) (\<lambda>(whereClauseResult, idx4).
     and_then (optionalClause ''group by'' (GroupByClauseParser ps) lexemes idx4) (\<lambda>(groupByClauseResult, idx5).
     and_then (optionalClause ''having'' (HavingClauseParser ps) lexemes idx5) (\<lambda>(havingClauseResult, idx6).
     and_then (optionalClause ''window'' (WindowClauseParser ps) lexemes idx6) (\<lambda>(windowFrameClauseResult, idx7).
     and_then (optionalClause ''order by'' (OrderByClauseParser ps) lexemes idx7) (\<lambda>(orderByClauseResult, idx8).
     and_then (optionalClause ''limit'' (LimitClauseParser ps) lexemes idx8) (\<lambda>(limitClauseResult, idx9).
     and_then (optionalClause ''for'' (ForClauseParser ps) lexemes idx9) (\<lambda>(forClauseResult, idx10).
       Some (Inr (\<lparr>withClause = withClauseResult, selectClause = selectClauseResult,
                    fromClause = fromClauseResult, whereClause = whereClauseResult,
                    groupByClause = groupByClauseResult, havingClause = havingClauseResult,
                    orderByClause = orderByClauseResult,
                    windowFrameClause = windowFrameClauseResult,
                    limitClause = limitClauseResult, forClause = forClauseResult\<rparr>,
                  idx10))))))))))))"

definition unexpectedTokenMessage :: "Lexeme list \<Rightarrow> nat \<Rightarrow> string" where
  "unexpectedTokenMessage lexemes newIndex =
     ''Syntax error: Unexpected token '' @ dquote @ lexValue (lexemes ! newIndex) @ dquote
     @ '' at position '' @ string_of_nat newIndex
     @ ''. The SELECT query is complete but there are additional tokens.''"

definition parseFromText ::
  "(string \<Rightarrow> Lexeme list result) \<Rightarrow> 'c ClauseParsers \<Rightarrow> string \<Rightarrow> 'c SelectQuery result" where
  "parseFromText readLexmes ps query =
     and_then (readLexmes query) (\<lambda>lexemes.
     and_then (parse ps lexemes 0) (\<lambda>(v, newIndex).
       if newIndex < length lexemes
       then Some (Inl (Error (unexpectedTokenMessage lexemes newIndex)))
       else Some (Inr v)))"

section \<open>Stand-ins for the collaborators that are not among the sources\<close>

text \<open>
  Modelled from the spec: \<open>ValueParser\<close> is not among the sources. This stand-in covers
  two atoms of the expression grammar, each a single lexeme: a column reference of one
  identifier and a literal. It is used only to run the parsers above on concrete inputs.
\<close>

datatype ValueComponent = ColumnReference string | LiteralValue string

definition atomValueParser :: "ValueComponent parser" where
  "atomValueParser lexemes index =
     (if length lexemes \<le> index
      then Some (Inl (Error (''Unexpected end of input at index '' @ string_of_nat index)))
      else if lexType (lexemes ! index) = Identifier
      then Some (Inr (ColumnReference (lexValue (lexemes ! index)), index + 1))
      else if lexType (lexemes ! index) = Literal
      then Some (Inr (LiteralValue (lexValue (lexemes ! index)), index + 1))
      else Some (Inl (Error (''Unexpected token at index '' @ string_of_nat index))))"

text \<open>
  Modelled from the spec: the clause parsers other than the select clause parser, and
  \<open>ValueParser.parseArgument\<close>, are not among the sources. On the concrete inputs below
  they are never reached; the stand-in rejects.
\<close>

definition clauseNotAmongSources :: "'c parser" where
  "clauseNotAmongSources lexemes index =
     Some (Inl (Error ''clause parser not among the sources''))"

definition argumentNotAmongSources :: "TokenType \<Rightarrow> TokenType \<Rightarrow> unit parser" where
  "argumentNotAmongSources openToken closeToken lexemes index =
     Some (Inl (Error ''argument parser not among the sources''))"

definition srcClauseParsers :: "(ValueComponent SelectClause) ClauseParsers" where
  "srcClauseParsers =
     \<lparr>WithClauseParser = clauseNotAmongSources, SelectClauseParser = Parse atomValueParser,
      FromClauseParser = clauseNotAmongSources, WhereClauseParser = clauseNotAmongSources,
      GroupByClauseParser = clauseNotAmongSources, HavingClauseParser = clauseNotAmongSources,
      WindowClauseParser = clauseNotAmongSources, OrderByClauseParser = clauseNotAmongSources,
      LimitClauseParser = clauseNotAmongSources, ForClauseParser = clauseNotAmongSources\<rparr>"

text \<open>
  Modelled from the spec: the tokenizer is not among the sources. This stand-in reads
  words separated by single spaces: a reserved word becomes a \<open>Keyword\<close> with its value
  folded to lower case, a parenthesis, comma or dot its own kind, a run of digits a
  \<open>Literal\<close>, and any other word an \<open>Identifier\<close> that keeps its case.
\<close>

fun splitWords :: "string \<Rightarrow> string \<Rightarrow> string list" where
  "splitWords cur [] = (if cur = [] then [] else [cur])"
| "splitWords cur (c # cs) =
     (if c = CHR '' '' then (if cur = [] then splitWords [] cs else cur # splitWords [] cs)
      else splitWords (cur @ [c]) cs)"

definition wordLexeme :: "string \<Rightarrow> Lexeme" where
  "wordLexeme w =
     (if toLowerCase w \<in> set [''select'', ''as'', ''from'', ''where'', ''with'', ''union'',
                                 ''intersect'', ''except'', ''values'']
      then lexeme Keyword (toLowerCase w)
      else if w = ''('' then lexeme OpenParen w
      else if w = '')'' then lexeme CloseParen w
      else if w = '','' then lexeme Comma w
      else if w = ''.'' then lexeme Dot w
      else if list_all (\<lambda>c. 48 \<le> (of_char c :: nat) \<and> (of_char c :: nat) \<le> 57) w
      then lexeme Literal w
      else lexeme Identifier w)"

definition wordsTokenizer :: "string \<Rightarrow> Lexeme list result" where
  "wordsTokenizer query = Some (Inr (map wordLexeme (splitWords [] query)))"

text \<open>
  Modelled from the spec: the WITH and FROM clause parsers are not among the sources.
  These stand-ins cover a WITH clause of one common table \<open>alias as ( select ... )\<close> and a
  FROM clause of one leading source without joins; both read the parenthesised query and
  the source with the source parser above. The clause node records which clause it is.
\<close>

datatype Clause =
    SelectNode "ValueComponent SelectClause"
  | FromNode "(ValueComponent SelectClause SelectQuery, unit) SourceComponent"
  | WithNode string "(ValueComponent SelectClause SelectQuery, unit) SourceComponent"

definition selectClauseStandIn :: "Clause parser" where
  "selectClauseStandIn lexemes index =
     and_then (Parse atomValueParser lexemes index) (\<lambda>(clause, n).
       Some (Inr (SelectNode clause, n)))"

definition fromClauseStandIn :: "Clause parser" where
  "fromClauseStandIn lexemes index =
     and_then (SourceParser_parse (parse srcClauseParsers) argumentNotAmongSources lexemes
                 (index + 1))
       (\<lambda>(source, n). Some (Inr (FromNode source, n)))"

definition withClauseStandIn :: "Clause parser" where
  "withClauseStandIn lexemes index =
     (if index + 3 < length lexemes \<and> lexType (lexemes ! (index + 1)) = Identifier
         \<and> lexValue (lexemes ! (index + 2)) = ''as''
         \<and> lexType (lexemes ! (index + 3)) = OpenParen
      then and_then (parseParenSource (parse srcClauseParsers) lexemes (index + 3))
             (\<lambda>(source, n). Some (Inr (WithNode (lexValue (lexemes ! (index + 1))) source, n)))
      else Some (Inl (Error (''Expected a common table at index '' @ string_of_nat (index + 1)))))"

definition withFromClauseParsers :: "Clause ClauseParsers" where
  "withFromClauseParsers =
     \<lparr>WithClauseParser = withClauseStandIn, SelectClauseParser = selectClauseStandIn,
      FromClauseParser = fromClauseStandIn, WhereClauseParser = clauseNotAmongSources,
      GroupByClauseParser = clauseNotAmongSources, HavingClauseParser = clauseNotAmongSources,
      WindowClauseParser = clauseNotAmongSources, OrderByClauseParser = clauseNotAmongSources,
      LimitClauseParser = clauseNotAmongSources, ForClauseParser = clauseNotAmongSources\<rparr>"


text \<open>
  The reading of "the error reports the end of the input": the message of the error
  contains the words \<open>end of input\<close>.
\<close>

definition reportsEndOfInput :: "error \<Rightarrow> bool" where
  "reportsEndOfInput e = (case e of Error message \<Rightarrow> str_includes message ''end of input'' | TypeError \<Rightarrow> False)"

section \<open>Print tokens and the line printer\<close>

text \<open>
  Modelled from the spec: the print token model (models/SqlPrintToken) is not among the
  sources. A print token has a kind, a text, a container kind and children; the keyword
  tokens attached to it are a second list of children. The kinds are the ones the spec
  lists, and a kind each for the space and the parenthesis tokens. Container kinds are the strings
  of the source's enumeration (the printer compares one with the literal
  \<open>"JoinClause"\<close>); the empty string is "no container kind".
\<close>

datatype SqlPrintTokenType =
    ContainerToken | KeywordToken | IdentifierToken | LiteralToken
  | OperatorToken | CommaToken | ParameterToken | CommentToken
  | SpaceToken | ParenthesisToken

datatype SqlPrintToken =
  SqlPrintToken (tokenType: SqlPrintTokenType) (tokenText: string) (containerType: string)
    (keywordTokens: "SqlPrintToken list") (innerTokens: "SqlPrintToken list")

text \<open>
  Modelled from the spec: the line printer (transformers/LinePrinter) is not among the
  sources. It keeps the lines printed so far, each with its indentation level, the last
  one being the current line buffer. Ending a line strips the trailing white space of the
  current line and adds the newline string (an empty line stays empty); a single space is
  not appended to an empty line; the output is every non-empty line behind its
  indentation (\<open>indentSize * level\<close> copies of \<open>indentChar\<close>), with trailing white space
  stripped. With the default newline, a single space, the output is one line with single
  spaces.
\<close>

record PrintLine =
  lineLevel :: nat
  lineText :: string

record LinePrinter =
  lpIndentChar :: string
  lpIndentSize :: nat
  lpNewline :: string
  lines :: "PrintLine list"

definition isWhitespace :: "char \<Rightarrow> bool" where
  "isWhitespace c = ((of_char c :: nat) = 32 \<or> (9 \<le> (of_char c :: nat) \<and> (of_char c :: nat) \<le> 13))"

definition trimEnd :: "string \<Rightarrow> string" where
  "trimEnd s = rev (dropWhile isWhitespace (rev s))"

definition endLine :: "string \<Rightarrow> PrintLine \<Rightarrow> PrintLine" where
  "endLine nl line =
     (if lineText line \<noteq> '''' then line\<lparr>lineText := trimEnd (lineText line) @ nl\<rparr> else line)"

definition appendNewline :: "nat \<Rightarrow> LinePrinter \<Rightarrow> LinePrinter" where
  "appendNewline level lp =
     lp\<lparr>lines := (if lines lp = [] then []
                    else butlast (lines lp) @ [endLine (lpNewline lp) (last (lines lp))])
                   @ [\<lparr>lineLevel = level, lineText = ''''\<rparr>]\<rparr>"

definition appendText :: "string \<Rightarrow> LinePrinter \<Rightarrow> LinePrinter" where
  "appendText t lp =
     (if lines lp = [] then lp
      else if t = '' '' \<and> lineText (last (lines lp)) = '''' then lp
      else lp\<lparr>lines := butlast (lines lp)
                  @ [(last (lines lp))\<lparr>lineText := lineText (last (lines lp)) @ t\<rparr>]\<rparr>)"

definition newLinePrinter :: "string \<Rightarrow> nat \<Rightarrow> string \<Rightarrow> LinePrinter" where
  "newLinePrinter ic isz nl =
     appendNewline 0 \<lparr>lpIndentChar = ic, lpIndentSize = isz, lpNewline = nl, lines = []\<rparr>"

definition indent :: "LinePrinter \<Rightarrow> nat \<Rightarrow> string" where
  "indent lp level = concat (replicate (lpIndentSize lp * level) (lpIndentChar lp))"

definition LinePrinter_print :: "LinePrinter \<Rightarrow> string" where
  "LinePrinter_print lp =
     trimEnd (concat (map (\<lambda>line. if lineText line \<noteq> ''''
                                    then indent lp (lineLevel line) @ lineText line else '''')
                          (lines lp)))"

text \<open>What a list of lines prints as, before the final trimming.\<close>

definition printedLines :: "LinePrinter \<Rightarrow> PrintLine list \<Rightarrow> string" where
  "printedLines lp ls =
     concat (map (\<lambda>line. if lineText line \<noteq> ''''
                           then indent lp (lineLevel line) @ lineText line else '''') ls)"

section \<open>SqlPrinter (packages/core/src/transformers/SqlPrinter.ts)\<close>

text \<open>
  The options of the printer are optional fields; the constructor fills in the defaults.
  The break styles and the keyword case are the strings of the source's union types.
\<close>

record SqlPrinterOptions =
  indentChar_opt :: "string option"
  indentSize_opt :: "nat option"
  newline_opt :: "string option"
  commaBreak_opt :: "string option"
  andBreak_opt :: "string option"
  keywordCase_opt :: "string option"
  exportComment_opt :: "bool option"
  strictCommentPlacement_opt :: "bool option"
  indentIncrementContainerTypes_opt :: "string list option"
  cteOneline_opt :: "bool option"
  cteOnelineDependency_opt :: "bool option"
  cteOnelineSet_opt :: "string list option"
  importComments_opt :: "string list option"

definition noOptions :: SqlPrinterOptions where
  "noOptions =
     \<lparr>indentChar_opt = None, indentSize_opt = None, newline_opt = None, commaBreak_opt = None,
      andBreak_opt = None, keywordCase_opt = None, exportComment_opt = None,
      strictCommentPlacement_opt = None, indentIncrementContainerTypes_opt = None,
      cteOneline_opt = None, cteOnelineDependency_opt = None, cteOnelineSet_opt = None,
      importComments_opt = None\<rparr>"

record SqlPrinter =
  indentChar :: string
  indentSize :: nat
  newline :: string
  commaBreak :: string
  andBreak :: string
  keywordCase :: string
  exportComment :: bool
  strictCommentPlacement :: bool
  cteOneline :: bool
  cteOnelineDependency :: bool
  cteOnelineSet :: "string list"
  importComments :: "string list"
  indentIncrementContainers :: "string list"

definition defaultIndentIncrementContainers :: "string list" where
  "defaultIndentIncrementContainers =
     [''SelectClause'', ''FromClause'', ''WhereClause'', ''GroupByClause'', ''HavingClause'',
      ''WindowFrameExpression'', ''PartitionByClause'', ''OrderByClause'', ''WindowClause'',
      ''LimitClause'', ''OffsetClause'', ''SubQuerySource'', ''BinarySelectQueryOperator'',
      ''Values'', ''WithClause'', ''SwitchCaseArgument'', ''CaseKeyValuePair'',
      ''CaseThenValue'', ''ElseClause'', ''CaseElseValue'']"

definition orDefault :: "'a option \<Rightarrow> 'a \<Rightarrow> 'a" where
  "orDefault v d = (case v of None \<Rightarrow> d | Some x \<Rightarrow> x)"

definition newSqlPrinter :: "SqlPrinterOptions \<Rightarrow> SqlPrinter" where
  "newSqlPrinter options =
     \<lparr>indentChar = orDefault (indentChar_opt options) '''',
      indentSize = orDefault (indentSize_opt options) 0,
      newline = orDefault (newline_opt options) '' '',
      commaBreak = orDefault (commaBreak_opt options) ''none'',
      andBreak = orDefault (andBreak_opt options) ''none'',
      keywordCase = orDefault (keywordCase_opt options) ''none'',
      exportComment = orDefault (exportComment_opt options) False,
      strictCommentPlacement = orDefault (strictCommentPlacement_opt options) False,
      cteOneline = orDefault (cteOneline_opt options) False,
      cteOnelineDependency = orDefault (cteOnelineDependency_opt options) False,
      cteOnelineSet = orDefault (cteOnelineSet_opt options) [],
      importComments = orDefault (importComments_opt options) [],
      indentIncrementContainers =
        orDefault (indentIncrementContainerTypes_opt options) defaultIndentIncrementContainers\<rparr>"

definition shouldSkipToken :: "SqlPrintToken \<Rightarrow> bool" where
  "shouldSkipToken token = (innerTokens token = [] \<and> tokenText token = '''')"

definition applyKeywordCase :: "SqlPrinter \<Rightarrow> string \<Rightarrow> string" where
  "applyKeywordCase p t =
     (if keywordCase p = ''upper'' then toUpperCase t
      else if keywordCase p = ''lower'' then toLowerCase t
      else t)"

definition handleKeywordToken :: "SqlPrinter \<Rightarrow> SqlPrintToken \<Rightarrow> nat \<Rightarrow> LinePrinter \<Rightarrow> LinePrinter" where
  "handleKeywordToken p token level lp = appendText (applyKeywordCase p (tokenText token)) lp"

definition handleCommaToken ::
  "SqlPrinter \<Rightarrow> SqlPrintToken \<Rightarrow> nat \<Rightarrow> string option \<Rightarrow> LinePrinter \<Rightarrow> LinePrinter" where
  "handleCommaToken p token level parentContainerType lp =
     (if cteOneline p \<and> parentContainerType = Some ''WithClause''
      then appendNewline level (appendText (tokenText token) lp)
      else if commaBreak p = ''before''
      then appendText (tokenText token) (appendNewline level lp)
      else if commaBreak p = ''after''
      then appendNewline level (appendText (tokenText token) lp)
      else appendText (tokenText token) lp)"

definition handleAndOperatorToken ::
  "SqlPrinter \<Rightarrow> SqlPrintToken \<Rightarrow> nat \<Rightarrow> LinePrinter \<Rightarrow> LinePrinter" where
  "handleAndOperatorToken p token level lp =
     (if andBreak p = ''before''
      then appendText (applyKeywordCase p (tokenText token)) (appendNewline level lp)
      else if andBreak p = ''after''
      then appendNewline level (appendText (applyKeywordCase p (tokenText token)) lp)
      else appendText (applyKeywordCase p (tokenText token)) lp)"

definition handleJoinClauseToken ::
  "SqlPrinter \<Rightarrow> SqlPrintToken \<Rightarrow> nat \<Rightarrow> LinePrinter \<Rightarrow> LinePrinter" where
  "handleJoinClauseToken p token level lp =
     appendText (applyKeywordCase p (tokenText token)) (appendNewline level lp)"

definition handleCommentToken :: "SqlPrinter \<Rightarrow> SqlPrintToken \<Rightarrow> LinePrinter \<Rightarrow> LinePrinter" where
  "handleCommentToken p token lp =
     (if exportComment p then appendText '' '' (appendText (tokenText token) lp) else lp)"

definition extractCteNameFromToken :: "SqlPrintToken \<Rightarrow> string option" where
  "extractCteNameFromToken token =
     (case innerTokens token of
        [] \<Rightarrow> None
      | aliasToken # rest \<Rightarrow> if tokenText aliasToken \<noteq> '''' then Some (tokenText aliasToken) else None)"

definition shouldFormatCteOneline :: "SqlPrinter \<Rightarrow> SqlPrintToken \<Rightarrow> bool" where
  "shouldFormatCteOneline p token =
     (if cteOneline p then True
      else if \<not> cteOnelineDependency p then False
      else (case extractCteNameFromToken token of
              None \<Rightarrow> False
            | Some cteName \<Rightarrow> cteName \<in> set (cteOnelineSet p)))"

text \<open>The printer that \<open>handleCteOnelineToken\<close> builds for one common table.\<close>

definition onelinePrinter :: "SqlPrinter \<Rightarrow> SqlPrinter" where
  "onelinePrinter p =
     newSqlPrinter (noOptions\<lparr>indentChar_opt := Some '''', indentSize_opt := Some 0,
       newline_opt := Some '' '', commaBreak_opt := Some (commaBreak p),
       andBreak_opt := Some (andBreak p), keywordCase_opt := Some (keywordCase p),
       exportComment_opt := Some (exportComment p),
       strictCommentPlacement_opt := Some (strictCommentPlacement p),
       cteOneline_opt := Some False\<rparr>)"

text \<open>
  The start of \<open>print\<close>: a new line printer whose first line gets the initial level.
\<close>

definition startLinePrinter :: "string \<Rightarrow> nat \<Rightarrow> string \<Rightarrow> nat \<Rightarrow> LinePrinter" where
  "startLinePrinter ic isz nl level =
     (let lp = newLinePrinter ic isz nl
      in if lines lp \<noteq> [] \<and> level \<noteq> lineLevel (lines lp ! 0)
         then lp\<lparr>lines := (lines lp)[0 := (lines lp ! 0)\<lparr>lineLevel := level\<rparr>]\<rparr>
         else lp)"

definition emitImportComments :: "nat \<Rightarrow> string list \<Rightarrow> LinePrinter \<Rightarrow> LinePrinter" where
  "emitImportComments level comments lp =
     fold (\<lambda>c l. appendText (''    '' @ c) (appendNewline level l)) comments lp"

text \<open>
  \<open>appendToken\<close>, with the line printer passed through. \<open>current\<close> is the line object
  taken before the token is handled, here its index: lines are only added at the end,
  so the object stays at its index. The branch for a WITH clause with import comments
  is \<open>handleWithClauseToken\<close>, the branch for a one-line common table is
  \<open>handleCteOnelineToken\<close> (a new printer prints the same token and its output is
  appended as one text).
\<close>

function appendToken ::
  "SqlPrinter \<Rightarrow> SqlPrintToken \<Rightarrow> nat \<Rightarrow> string option \<Rightarrow> LinePrinter \<Rightarrow> LinePrinter" where
  "appendToken p token level parentContainerType lp =
     (if shouldSkipToken token then lp
      else if containerType token = ''WithClause'' \<and> importComments p \<noteq> []
      then emitImportComments level (importComments p)
             (fold (\<lambda>t. appendToken p t level (Some (containerType token))) (innerTokens token)
                (appendText (tokenText token) lp))
      else if tokenType token \<noteq> KeywordToken \<and> tokenType token \<noteq> CommaToken
              \<and> \<not> (tokenType token = OperatorToken \<and> toLowerCase (tokenText token) = ''and'')
              \<and> containerType token \<noteq> ''JoinClause'' \<and> tokenType token \<noteq> CommentToken
              \<and> containerType token = ''CommonTable'' \<and> shouldFormatCteOneline p token
      then appendText
             (LinePrinter_print
                (appendToken (onelinePrinter p) token level None
                   (startLinePrinter '''' 0 '' '' level))) lp
      else
        let current = length (lines lp) - 1;
            lp1 = (if tokenType token = KeywordToken then handleKeywordToken p token level lp
                   else if tokenType token = CommaToken
                   then handleCommaToken p token level parentContainerType lp
                   else if tokenType token = OperatorToken \<and> toLowerCase (tokenText token) = ''and''
                   then handleAndOperatorToken p token level lp
                   else if containerType token = ''JoinClause''
                   then handleJoinClauseToken p token level lp
                   else if tokenType token = CommentToken then handleCommentToken p token lp
                   else appendText (tokenText token) lp);
            lp2 = fold (\<lambda>t. appendToken p t level (Some (containerType token)))
                    (keywordTokens token) lp1;
            innerLevel = (if newline p \<noteq> '' '' \<and> lineText (lines lp2 ! current) \<noteq> ''''
                             \<and> containerType token \<in> set (indentIncrementContainers p)
                          then level + 1 else level);
            lp3 = (if innerLevel \<noteq> level then appendNewline innerLevel lp2 else lp2);
            lp4 = fold (\<lambda>t. appendToken p t innerLevel (Some (containerType token)))
                    (innerTokens token) lp3
        in if innerLevel \<noteq> level then appendNewline level lp4 else lp4)"
  by pat_completeness auto
termination
proof (relation "inv_image (less_than <*lex*> less_than)
    (\<lambda>(p, token, level, parentContainerType, lp).
       (if cteOneline p \<or> cteOnelineDependency p then 1 else (0::nat), size token))",
    goal_cases)
  case 1
  show ?case
    by (intro wf_inv_image wf_lex_prod wf_less_than)
next
  case (2 p token level parentContainerType lp x xa)
  then have "size x \<le> size_list size (innerTokens token)"
    by (intro size_list_estimation' [of x]) simp_all
  then have "size x < size token"
    by (cases token) simp
  then show ?case
    by simp
next
  case (3 p token level parentContainerType lp)
  then have "cteOneline p \<or> cteOnelineDependency p"
    by (auto simp add: shouldFormatCteOneline_def split: if_splits)
  moreover have "\<not> cteOneline (onelinePrinter p) \<and> \<not> cteOnelineDependency (onelinePrinter p)"
    by (simp add: onelinePrinter_def newSqlPrinter_def noOptions_def orDefault_def)
  ultimately show ?case
    by simp
next
  case (4 p token level parentContainerType lp x xa xb xc)
  then have "size xb \<le> size_list size (keywordTokens token)"
    by (intro size_list_estimation' [of xb]) simp_all
  then have "size xb < size token"
    by (cases token) simp
  then show ?case
    by simp
next
  case (5 p token level parentContainerType lp x xa xb xc xd xe xf)
  then have "size xe \<le> size_list size (innerTokens token)"
    by (intro size_list_estimation' [of xe]) simp_all
  then have "size xe < size token"
    by (cases token) simp
  then show ?case
    by simp
qed

declare appendToken.simps [simp del]

definition SqlPrinter_print :: "SqlPrinter \<Rightarrow> SqlPrintToken \<Rightarrow> nat \<Rightarrow> string" where
  "SqlPrinter_print p token level =
     LinePrinter_print
       (appendToken p token level None
          (startLinePrinter (indentChar p) (indentSize p) (newline p) level))"

section \<open>SqlFormatter (packages/core/src/transformers/SqlFormatter.ts)\<close>

text \<open>
  The options of the formatter: the fields the constructor reads itself, and the fields
  it spreads into the options of the printer.
\<close>

datatype ParameterSymbol = Symbol string | SymbolPair string string

record FormatterConfig =
  identifierEscape :: "(string \<times> string) option"
  parameterSymbol :: "ParameterSymbol option"
  parameterStyle :: "string option"

record SqlFormatterOptions =
  preset :: "string option"
  identifierEscape_opt :: "(string \<times> string) option"
  parameterSymbol_opt :: "ParameterSymbol option"
  parameterStyle_opt :: "string option"
  printerOptions :: SqlPrinterOptions

record SqlFormatter =
  parserOptions :: FormatterConfig
  printer :: SqlPrinter

definition VALID_PRESETS :: "string list" where
  "VALID_PRESETS = [''mysql'', ''postgres'', ''sqlserver'', ''sqlite'']"

text \<open>
  Modelled from the spec: the table \<open>PRESETS\<close> (parsers/SqlPrintTokenParser) is not among
  the sources. It has the four dialect presets with the identifier escape pair, the
  parameter symbol and the parameter style the spec gives for each.
\<close>

definition PRESETS :: "string \<Rightarrow> FormatterConfig option" where
  "PRESETS name =
     (if name = ''postgres''
      then Some \<lparr>identifierEscape = Some (dquote, dquote), parameterSymbol = Some (Symbol ''$''),
                  parameterStyle = Some ''indexed''\<rparr>
      else if name = ''mysql''
      then Some \<lparr>identifierEscape = Some ([char_of (96::nat)], [char_of (96::nat)]),
                  parameterSymbol = Some (Symbol ''?''), parameterStyle = Some ''anonymous''\<rparr>
      else if name = ''sqlite''
      then Some \<lparr>identifierEscape = Some (dquote, dquote), parameterSymbol = Some (Symbol ''?''),
                  parameterStyle = Some ''anonymous''\<rparr>
      else if name = ''sqlserver''
      then Some \<lparr>identifierEscape = Some (''['', '']''), parameterSymbol = Some (Symbol ''@''),
                  parameterStyle = Some ''named''\<rparr>
      else None)"

text \<open>
  \<open>PRESETS[options.preset]\<close> is a property read on an ordinary object: besides the four
  own keys it finds the keys every object inherits from \<open>Object.prototype\<close>. Such a value
  is a function or an object, so it is truthy; it has no field of a preset, and spreading
  it adds nothing.
\<close>

definition objectPrototypeKeys :: "string list" where
  "objectPrototypeKeys =
     [''constructor'', ''__defineGetter__'', ''__defineSetter__'', ''hasOwnProperty'',
      ''__lookupGetter__'', ''__lookupSetter__'', ''isPrototypeOf'', ''propertyIsEnumerable'',
      ''toString'', ''valueOf'', ''__proto__'', ''toLocaleString'']"

datatype PropertyValue = PresetConfig FormatterConfig | InheritedProperty

definition PRESETS_read :: "string \<Rightarrow> PropertyValue option" where
  "PRESETS_read name =
     (case PRESETS name of
        Some config \<Rightarrow> Some (PresetConfig config)
      | None \<Rightarrow> if name \<in> set objectPrototypeKeys then Some InheritedProperty else None)"

definition configField :: "PropertyValue option \<Rightarrow> (FormatterConfig \<Rightarrow> 'a option) \<Rightarrow> 'a option" where
  "configField presetConfig field =
     (case presetConfig of Some (PresetConfig c) \<Rightarrow> field c | _ \<Rightarrow> None)"

definition orElse :: "'a option \<Rightarrow> 'a option \<Rightarrow> 'a option" where
  "orElse a b = (case a of None \<Rightarrow> b | Some x \<Rightarrow> Some x)"

text \<open>
  The constructor. \<open>options.preset\<close> is tested for truthiness: an absent preset and the
  empty string select no preset. The set of one-line names starts empty.
\<close>

definition truthyPreset :: "SqlFormatterOptions \<Rightarrow> string option" where
  "truthyPreset options =
     (case preset options of None \<Rightarrow> None | Some name \<Rightarrow> if name = [] then None else Some name)"

definition newSqlFormatter :: "SqlFormatterOptions \<Rightarrow> error + SqlFormatter" where
  "newSqlFormatter options =
     (let presetConfig = (case truthyPreset options of None \<Rightarrow> None | Some name \<Rightarrow> PRESETS_read name)
      in case (truthyPreset options, presetConfig) of
           (Some name, None) \<Rightarrow> Inl (Error (''Invalid preset: '' @ name))
         | _ \<Rightarrow>
           Inr \<lparr>parserOptions =
                   \<lparr>identifierEscape = orElse (identifierEscape_opt options)
                       (configField presetConfig identifierEscape),
                    parameterSymbol = orElse (parameterSymbol_opt options)
                       (configField presetConfig parameterSymbol),
                    parameterStyle = orElse (parameterStyle_opt options)
                       (configField presetConfig parameterStyle)\<rparr>,
                 printer = newSqlPrinter ((printerOptions options)
                   \<lparr>cteOnelineSet_opt :=
                      (if cteOnelineDependency_opt (printerOptions options) = Some True
                       then Some [] else None)\<rparr>)\<rparr>)"

text \<open>
  The collaborators of \<open>format\<close> that are not among the sources are parameters: the
  lowering of a query to print tokens (\<open>SqlPrintTokenParser.parse\<close>, which also returns the
  parameter bag), the test \<open>instanceof SimpleSelectQuery\<close>, and the leaf nodes of the
  graph the CTE dependency tracer builds (or the error it throws).
\<close>

record ('q, 'b) Collaborators =
  tokenParser_parse :: "FormatterConfig \<Rightarrow> 'q \<Rightarrow> error + (SqlPrintToken \<times> 'b)"
  isSimpleSelectQuery :: "'q \<Rightarrow> bool"
  buildGraph_leafNodes :: "'q \<Rightarrow> error + string list"

definition findDirectlyReferencedCtes :: "('q, 'b) Collaborators \<Rightarrow> 'q \<Rightarrow> string list" where
  "findDirectlyReferencedCtes env query =
     (case buildGraph_leafNodes env query of Inl e \<Rightarrow> [] | Inr leafNodes \<Rightarrow> leafNodes)"

definition generateImportComments :: "string list \<Rightarrow> string list" where
  "generateImportComments cteNames =
     map (\<lambda>cteName. ''/* import '' @ cteName @ ''.cte.sql'' @ '' */'') cteNames"

text \<open>
  The step of \<open>format\<close> between lowering and printing: with dependency mode on and a
  simple select query, the printer's \<open>cteOneline\<close> is set and its import comments are
  replaced. The assignment changes the printer of the formatter, so \<open>format\<close> returns
  the formatter as it is after the call next to the result.
\<close>

definition analyseDependencies :: "('q, 'b) Collaborators \<Rightarrow> SqlPrinter \<Rightarrow> 'q \<Rightarrow> SqlPrinter" where
  "analyseDependencies env p sql =
     (if cteOnelineDependency p \<and> isSimpleSelectQuery env sql
      then p\<lparr>cteOneline := True,
              importComments := generateImportComments (findDirectlyReferencedCtes env sql)\<rparr>
      else p)"

definition format ::
  "('q, 'b) Collaborators \<Rightarrow> SqlFormatter \<Rightarrow> 'q \<Rightarrow> (error + (string \<times> 'b)) \<times> SqlFormatter" where
  "format env formatter sql =
     (case tokenParser_parse env (parserOptions formatter) sql of
        Inl e \<Rightarrow> (Inl e, formatter)
      | Inr (token, params) \<Rightarrow>
          (let p = analyseDependencies env (printer formatter) sql
           in (Inr (SqlPrinter_print p token 0, params), formatter\<lparr>printer := p\<rparr>)))"

section \<open>Stand-ins for the collaborators of the formatter\<close>

text \<open>
  Modelled from the spec: the AST, its lowering to print tokens and the CTE dependency
  tracer are not among the sources. For concrete inputs a query is represented by what
  these collaborators answer about it: whether it is a simple select query, the leaf
  nodes of its dependency graph, and its print token tree. The token trees below have
  the shape the spec gives to the lowering: a clause is a keyword token with the
  container kind of the clause, a common table is a container of the alias, \<open>as\<close> and the
  parenthesised query.
\<close>

definition tok :: "SqlPrintTokenType \<Rightarrow> string \<Rightarrow> SqlPrintToken" where
  "tok k t = SqlPrintToken k t '''' [] []"

definition clauseToken :: "string \<Rightarrow> string \<Rightarrow> SqlPrintToken list \<Rightarrow> SqlPrintToken" where
  "clauseToken t c inner = SqlPrintToken KeywordToken t c [] inner"

definition containerToken :: "string \<Rightarrow> SqlPrintToken list \<Rightarrow> SqlPrintToken" where
  "containerToken c inner = SqlPrintToken ContainerToken '''' c [] inner"

definition selectFromToken :: "string \<Rightarrow> string \<Rightarrow> SqlPrintToken" where
  "selectFromToken col tbl =
     containerToken ''SimpleSelectQuery''
       [clauseToken ''select'' ''SelectClause'' [tok SpaceToken '' '', tok IdentifierToken col],
        tok SpaceToken '' '',
        clauseToken ''from'' ''FromClause'' [tok SpaceToken '' '', tok IdentifierToken tbl]]"

definition commonTableToken :: "string \<Rightarrow> SqlPrintToken \<Rightarrow> SqlPrintToken" where
  "commonTableToken name query =
     containerToken ''CommonTable''
       [tok IdentifierToken name, tok SpaceToken '' '', tok KeywordToken ''as'',
        tok SpaceToken '' '', tok ParenthesisToken ''('',
        containerToken ''SubQuerySource'' [query], tok ParenthesisToken '')'']"

definition withToken :: "SqlPrintToken list \<Rightarrow> SqlPrintToken" where
  "withToken ctes =
     clauseToken ''with'' ''WithClause'' ([tok SpaceToken '' ''] @ ctes @ [tok SpaceToken '' ''])"

text \<open>
  \<open>with base_users as (select id from users), enriched as (select id from base_users)
  select * from enriched\<close>: the only leaf node is \<open>enriched\<close>.
\<close>

definition scenario4With :: SqlPrintToken where
  "scenario4With =
     withToken [commonTableToken ''base_users'' (selectFromToken ''id'' ''users''),
                tok CommaToken '','', tok SpaceToken '' '',
                commonTableToken ''enriched'' (selectFromToken ''id'' ''base_users'')]"

definition scenario4Token :: SqlPrintToken where
  "scenario4Token =
     containerToken ''SimpleSelectQuery''
       [scenario4With,
        clauseToken ''select'' ''SelectClause'' [tok SpaceToken '' '', tok IdentifierToken ''*''],
        tok SpaceToken '' '',
        clauseToken ''from'' ''FromClause'' [tok SpaceToken '' '', tok IdentifierToken ''enriched'']]"

text \<open>
  \<open>with a as (select id from t) select id from a union select id from u\<close>: a binary
  select query, whose left operand carries the WITH clause.
\<close>

definition unionToken :: SqlPrintToken where
  "unionToken =
     containerToken ''BinarySelectQuery''
       [containerToken ''SimpleSelectQuery''
         [withToken [commonTableToken ''a'' (selectFromToken ''id'' ''t'')],
          clauseToken ''select'' ''SelectClause'' [tok SpaceToken '' '', tok IdentifierToken ''id''],
          tok SpaceToken '' '',
          clauseToken ''from'' ''FromClause'' [tok SpaceToken '' '', tok IdentifierToken ''a'']],
        tok SpaceToken '' '',
        SqlPrintToken KeywordToken ''union'' ''BinarySelectQueryOperator'' [] [],
        tok SpaceToken '' '',
        selectFromToken ''id'' ''u'']"

record DemoQuery =
  demoSimple :: bool
  demoLeafNodes :: "error + string list"
  demoToken :: SqlPrintToken

definition demoCollaborators :: "(DemoQuery, string list) Collaborators" where
  "demoCollaborators =
     \<lparr>tokenParser_parse = (\<lambda>config query. Inr (demoToken query, [])),
      isSimpleSelectQuery = demoSimple,
      buildGraph_leafNodes = demoLeafNodes\<rparr>"

definition scenario4 :: DemoQuery where
  "scenario4 =
     \<lparr>demoSimple = True, demoLeafNodes = Inr [''enriched''], demoToken = scenario4Token\<rparr>"

definition unionQuery :: DemoQuery where
  "unionQuery = \<lparr>demoSimple = False, demoLeafNodes = Inr [''a''], demoToken = unionToken\<rparr>"

definition formatterOptions :: "string option \<Rightarrow> SqlPrinterOptions \<Rightarrow> SqlFormatterOptions" where
  "formatterOptions name po =
     \<lparr>preset = name, identifierEscape_opt = None, parameterSymbol_opt = None,
      parameterStyle_opt = None, printerOptions = po\<rparr>"

text \<open>
  The options \<open>{cteOnelineDependency: true, cteOneline: false, newline: '\n',
  indentSize: 2, indentChar: ' '}\<close> and the formatter constructed from them.
\<close>

definition lineFeed :: string where
  "lineFeed = [char_of (10::nat)]"

definition dependencyOptions :: SqlFormatterOptions where
  "dependencyOptions =
     formatterOptions None
       (noOptions\<lparr>indentChar_opt := Some '' '', indentSize_opt := Some 2,
          newline_opt := Some lineFeed, cteOneline_opt := Some False,
          cteOnelineDependency_opt := Some True\<rparr>)"

definition dependencyFormatter :: SqlFormatter where
  "dependencyFormatter =
     \<lparr>parserOptions = \<lparr>identifierEscape = None, parameterSymbol = None, parameterStyle = None\<rparr>,
      printer = newSqlPrinter (noOptions\<lparr>indentChar_opt := Some '' '', indentSize_opt := Some 2,
          newline_opt := Some lineFeed, cteOneline_opt := Some False,
          cteOnelineDependency_opt := Some True, cteOnelineSet_opt := Some []\<rparr>)\<rparr>"

text \<open>
  The lines the import comments of the leaf nodes make: one line per name at the given
  level, each but the last ended by the newline string.
\<close>

fun importCommentLines :: "nat \<Rightarrow> string \<Rightarrow> string list \<Rightarrow> PrintLine list" where
  "importCommentLines level nl [] = []"
| "importCommentLines level nl [n] =
     [\<lparr>lineLevel = level, lineText = ''    /* import '' @ n @ ''.cte.sql */''\<rparr>]"
| "importCommentLines level nl (n # m # ns) =
     \<lparr>lineLevel = level, lineText = ''    /* import '' @ n @ ''.cte.sql */'' @ nl\<rparr>
       # importCommentLines level nl (m # ns)"

text \<open>
  The text the import comments of the leaf nodes print as: each comment behind the given
  indentation and four spaces, consecutive comments separated by the newline string.
\<close>

fun importCommentText :: "string \<Rightarrow> string \<Rightarrow> string list \<Rightarrow> string" where
  "importCommentText ind nl [] = ''''"
| "importCommentText ind nl [n] = ind @ ''    /* import '' @ n @ ''.cte.sql */''"
| "importCommentText ind nl (n # m # ns) =
     ind @ ''    /* import '' @ n @ ''.cte.sql */'' @ nl @ importCommentText ind nl (m # ns)"

definition endCurrentLine :: "string \<Rightarrow> PrintLine list \<Rightarrow> PrintLine list" where
  "endCurrentLine nl ls = (if ls = [] then [] else butlast ls @ [endLine nl (last ls)])"

section \<open>Basic facts\<close>

lemma and_then_simps [simp]:
  "and_then None f = None"
  "and_then (Some (Inl e)) f = Some (Inl e)"
  "and_then (Some (Inr v)) f = f v"
  by (simp_all add: and_then_def)

lemma lexeme_simps [simp]:
  "lexType (lexeme t v) = t"
  "lexValue (lexeme t v) = v"
  by (simp_all add: lexeme_def)


lemma startsWith_append: "startsWith (p @ s) p"
  by (induction p) simp_all

lemma str_includes_startsWith: "startsWith s p \<Longrightarrow> str_includes s p"
  by (cases s; cases p) simp_all

lemma str_includes_append: "str_includes (a @ p @ b) p"
proof (induction a)
  case Nil
  then show ?case by (simp add: str_includes_startsWith startsWith_append)
next
  case (Cons c a)
  then show ?case by simp
qed

section \<open>Select clause parser\<close>

lemma ParseItem_as:
  assumes "valueParser lexemes index = Some (Inr (v, n))"
    and "n < length lexemes"
    and "lexValue (lexemes ! n) = ''as''"
    and "\<not> (Suc n < length lexemes \<and> lexType (lexemes ! Suc n) = Identifier)"
  shows "ParseItem valueParser lexemes index = Some (Inr (BareValue v, Suc n))"
  using assms by (simp add: ParseItem_def Let_def)

text \<open>
  C10. In \<open>ParseItem\<close>, when the value of a select item is followed by the lexeme
  \<open>as\<close> and no identifier lexeme follows it, the \<open>as\<close> is consumed and the item is
  returned as the bare value, without an alias and without an error. In particular, when
  the stream is \<open>select\<close>, one value and a trailing \<open>as\<close>, \<open>Parse\<close> returns the
  clause with the cursor at the end, and \<open>ParseFromText\<close> succeeds.
\<close>

theorem select_item_trailing_as:
  assumes "valueParser lexemes index = Some (Inr (v, n))"
    and "n < length lexemes"
    and "lexValue (lexemes ! n) = ''as''"
    and "\<not> (Suc n < length lexemes \<and> lexType (lexemes ! Suc n) = Identifier)"
  shows "ParseItem valueParser lexemes index = Some (Inr (BareValue v, Suc n))
     \<and> (index = 1 \<and> lexValue (lexemes ! 0) = ''select'' \<and> Suc n = length lexemes
          \<longrightarrow> Parse valueParser lexemes 0 = Some (Inr (SelectClause [BareValue v], length lexemes))
            \<and> (\<forall>readLexmes query. readLexmes query = Some (Inr lexemes)
                 \<longrightarrow> ParseFromText readLexmes valueParser query = Some (Inr (SelectClause [BareValue v]))))"
proof -
  have item: "ParseItem valueParser lexemes index = Some (Inr (BareValue v, Suc n))"
    using assms by (rule ParseItem_as)
  have loop: "ParseItems valueParser lexemes [BareValue v] (length lexemes)
                = Some (Inr ([BareValue v], length lexemes))"
    by (subst ParseItems.simps) simp
  have ne: "lexemes \<noteq> []"
    using assms(2) by auto
  have clause: "Parse valueParser lexemes 0 = Some (Inr (SelectClause [BareValue v], length lexemes))"
    if "index = 1" "lexValue (lexemes ! 0) = ''select''" "Suc n = length lexemes"
    using that item loop ne by (simp add: Parse_def)
  show ?thesis
    using item clause by (auto simp add: ParseFromText_def)
qed

text \<open>The input \<open>select a as\<close>.\<close>

theorem select_item_trailing_as_witness:
  "ParseItem atomValueParser [lexeme Keyword ''select'', lexeme Identifier ''a'', lexeme Keyword ''as''] 1
     = Some (Inr (BareValue (ColumnReference ''a''), 3))
   \<and> Parse atomValueParser [lexeme Keyword ''select'', lexeme Identifier ''a'', lexeme Keyword ''as''] 0
     = Some (Inr (SelectClause [BareValue (ColumnReference ''a'')], 3))
   \<and> ParseFromText wordsTokenizer atomValueParser ''select a as''
     = Some (Inr (SelectClause [BareValue (ColumnReference ''a'')]))"
proof -
  let ?lx = "[lexeme Keyword ''select'', lexeme Identifier ''a'', lexeme Keyword ''as'']"
  have tk: "wordsTokenizer ''select a as'' = Some (Inr ?lx)"
    by (simp add: wordsTokenizer_def wordLexeme_def toLowerCase_def char_toLowerCase_def)
  have vp: "atomValueParser ?lx 1 = Some (Inr (ColumnReference ''a'', 2))"
    by (simp add: atomValueParser_def)
  show ?thesis
    using select_item_trailing_as [of atomValueParser ?lx 1 "ColumnReference ''a''" 2] vp tk
    by (simp add: numeral_3_eq_3)
qed

section \<open>Source parser\<close>

text \<open>
  C6 (amended). Inside parentheses the source parser accepts a SELECT subquery or a
  further parenthesis only. When the source parser stands on an open parenthesis and the
  next lexeme is neither \<open>select\<close> nor an open parenthesis (so also when it begins a
  VALUES query), it raises the error \<open>Expected 'SELECT' or '(' at index i\<close>, with \<open>i\<close>
  the index of that lexeme.
\<close>

theorem paren_source_select_only:
  assumes "Suc index < length lexemes"
    and "lexType (lexemes ! index) = OpenParen"
    and "lexValue (lexemes ! Suc index) \<noteq> ''select''"
    and "lexType (lexemes ! Suc index) \<noteq> OpenParen"
  shows "SourceParser_parse selectQueryParser parseArgument lexemes index
           = Some (Inl (Error (''Expected 'SELECT' or '(' at index '' @ string_of_nat (Suc index))))"
proof -
  have "parseParenSource selectQueryParser lexemes index
          = Some (Inl (Error (''Expected 'SELECT' or '(' at index '' @ string_of_nat (Suc index))))"
    using assms by (subst parseParenSource.simps) simp
  then show ?thesis
    using assms by (simp add: SourceParser_parse_def)
qed

text \<open>The lexemes of \<open>( values ( 1 ) )\<close>.\<close>

theorem paren_source_select_only_witness:
  "SourceParser_parse (parse srcClauseParsers) argumentNotAmongSources
     [lexeme OpenParen ''('', lexeme Keyword ''values'', lexeme OpenParen ''('',
      lexeme Literal ''1'', lexeme CloseParen '')'', lexeme CloseParen '')''] 0
   = Some (Inl (Error (''Expected 'SELECT' or '(' at index '' @ string_of_nat (Suc 0))))"
  using paren_source_select_only [of 0
     "[lexeme OpenParen ''('', lexeme Keyword ''values'', lexeme OpenParen ''('',
      lexeme Literal ''1'', lexeme CloseParen '')'', lexeme CloseParen '')'']"
     "parse srcClauseParsers" argumentNotAmongSources]
  by simp

text \<open>
  The claim as stated fails: on \<open>( values ( 1 ) )\<close> the source parser does not return a
  source node, it throws.
\<close>

theorem paren_values_source_counterexample:
  "SourceParser_parse (parse srcClauseParsers) argumentNotAmongSources
     [lexeme OpenParen ''('', lexeme Keyword ''values'', lexeme OpenParen ''('',
      lexeme Literal ''1'', lexeme CloseParen '')'', lexeme CloseParen '')''] 0
   = Some (Inl (Error ''Expected 'SELECT' or '(' at index 1''))"
  by code_simp

section \<open>Top-level select parser\<close>

text \<open>
  C9. \<open>parseFromText\<close> never ignores trailing input: a successful result means that the
  tokenizer returned lexemes, \<open>parse\<close> returned the query from cursor 0 and its new index is
  not inside the stream; and whenever \<open>parse\<close> returns with a new index inside the
  stream, \<open>parseFromText\<close> throws the syntax error that names the leftover lexeme.
\<close>

theorem parseFromText_no_trailing_input:
  "(parseFromText readLexmes ps query = Some (Inr v)
      \<longrightarrow> (\<exists>lexemes n. readLexmes query = Some (Inr lexemes)
             \<and> parse ps lexemes 0 = Some (Inr (v, n)) \<and> length lexemes \<le> n))
   \<and> (\<forall>lexemes w n. readLexmes query = Some (Inr lexemes)
          \<and> parse ps lexemes 0 = Some (Inr (w, n)) \<and> n < length lexemes
        \<longrightarrow> parseFromText readLexmes ps query
              = Some (Inl (Error (unexpectedTokenMessage lexemes n))))"
  by (auto simp add: parseFromText_def and_then_def split: option.splits sum.splits if_splits)


text \<open>The inputs \<open>select a\<close> (consumed whole) and \<open>select a b c\<close> (one lexeme left over).\<close>

theorem parseFromText_no_trailing_input_witness:
  "(\<exists>lexemes n. wordsTokenizer ''select a'' = Some (Inr lexemes)
       \<and> parse srcClauseParsers lexemes 0
           = Some (Inr (\<lparr>withClause = None,
                selectClause = SelectClause [BareValue (ColumnReference ''a'')],
                fromClause = None, whereClause = None, groupByClause = None,
                havingClause = None, orderByClause = None, windowFrameClause = None,
                limitClause = None, forClause = None\<rparr>, n))
       \<and> length lexemes \<le> n)
   \<and> parseFromText wordsTokenizer srcClauseParsers ''select a b c''
       = Some (Inl (Error (unexpectedTokenMessage
           [lexeme Keyword ''select'', lexeme Identifier ''a'', lexeme Identifier ''b'',
            lexeme Identifier ''c''] 3)))"
proof -
  let ?q = "\<lparr>withClause = None,
                selectClause = SelectClause [BareValue (ColumnReference ''a'')],
                fromClause = None, whereClause = None, groupByClause = None,
                havingClause = None, orderByClause = None, windowFrameClause = None,
                limitClause = None, forClause = None\<rparr>"
  let ?lx = "[lexeme Keyword ''select'', lexeme Identifier ''a'', lexeme Identifier ''b'',
            lexeme Identifier ''c'']"
  let ?q2 = "\<lparr>withClause = None,
                selectClause = SelectClause [SelectItem (ColumnReference ''a'') ''b''],
                fromClause = None, whereClause = None, groupByClause = None,
                havingClause = None, orderByClause = None, windowFrameClause = None,
                limitClause = None, forClause = None\<rparr>"
  have ok: "parseFromText wordsTokenizer srcClauseParsers ''select a'' = Some (Inr ?q)"
    by code_simp
  have tk: "wordsTokenizer ''select a b c'' = Some (Inr ?lx)"
    by code_simp
  have left: "parse srcClauseParsers ?lx 0 = Some (Inr (?q2, 3))"
    by code_simp
  show ?thesis
    using parseFromText_no_trailing_input [where readLexmes = wordsTokenizer
          and ps = srcClauseParsers and query = "''select a''" and v = ?q]
      parseFromText_no_trailing_input [where readLexmes = wordsTokenizer
          and ps = srcClauseParsers and query = "''select a b c''" and v = ?q]
      ok tk left
    by simp
qed





text \<open>
  C7 (amended). When the stream ends where SELECT is required, on entry or after a WITH
  clause, \<open>parse\<close> throws an \<open>Error\<close> whose message gives the position and says that
  \<open>end of input\<close> was found; when the stream ends after an open parenthesis,
  \<open>parseParenSource\<close> throws the \<open>Error\<close> \<open>Unexpected end of input at index i\<close>. Both
  are plain \<open>Error\<close> values; position and found text are parts of the message.
\<close>

theorem end_of_input_messages:
  "(length lexemes \<le> index \<longrightarrow>
      parse ps lexemes index
        = Some (Inl (Error (''Syntax error at position '' @ string_of_nat index
            @ '': Expected 'SELECT' keyword but found '' @ dquote @ ''end of input'' @ dquote
            @ ''. SELECT queries must start with the SELECT keyword.''))))
   \<and> (\<forall>w idx1. index < length lexemes \<and> toLowerCase (lexValue (lexemes ! index)) = ''with''
          \<and> WithClauseParser ps lexemes index = Some (Inr (w, idx1)) \<and> length lexemes \<le> idx1
        \<longrightarrow> parse ps lexemes index
              = Some (Inl (Error (''Syntax error at position '' @ string_of_nat idx1
                  @ '': Expected 'SELECT' keyword but found '' @ dquote @ ''end of input'' @ dquote
                  @ ''. SELECT queries must start with the SELECT keyword.''))))
   \<and> (length lexemes \<le> Suc index \<longrightarrow>
        parseParenSource selectQueryParser lexemes index
          = Some (Inl (Error (''Unexpected end of input at index '' @ string_of_nat (Suc index)))))
   \<and> (\<forall>i. reportsEndOfInput (Error (''Syntax error at position '' @ string_of_nat i
            @ '': Expected 'SELECT' keyword but found '' @ dquote @ ''end of input'' @ dquote
            @ ''. SELECT queries must start with the SELECT keyword.''))
          \<and> reportsEndOfInput (Error (''Unexpected end of input at index '' @ string_of_nat i)))"
proof -
  have a: "parse ps lexemes index
        = Some (Inl (Error (''Syntax error at position '' @ string_of_nat index
            @ '': Expected 'SELECT' keyword but found '' @ dquote @ ''end of input'' @ dquote
            @ ''. SELECT queries must start with the SELECT keyword.'')))"
    if "length lexemes \<le> index"
    using that by (simp add: parse_def optionalClause_def expectedSelectMessage_def)
  have a': "parse ps lexemes index
        = Some (Inl (Error (''Syntax error at position '' @ string_of_nat idx1
            @ '': Expected 'SELECT' keyword but found '' @ dquote @ ''end of input'' @ dquote
            @ ''. SELECT queries must start with the SELECT keyword.'')))"
    if "index < length lexemes" "toLowerCase (lexValue (lexemes ! index)) = ''with''"
      "WithClauseParser ps lexemes index = Some (Inr (w, idx1))" "length lexemes \<le> idx1"
    for w idx1
    using that by (simp add: parse_def optionalClause_def expectedSelectMessage_def)
  have b: "parseParenSource selectQueryParser lexemes index
        = Some (Inl (Error (''Unexpected end of input at index '' @ string_of_nat (Suc index))))"
    if "length lexemes \<le> Suc index"
    using that by (subst parseParenSource.simps) simp
  have ra: "reportsEndOfInput (Error (''Syntax error at position '' @ string_of_nat i
            @ '': Expected 'SELECT' keyword but found '' @ dquote @ ''end of input'' @ dquote
            @ ''. SELECT queries must start with the SELECT keyword.''))" for i
  proof -
    have "str_includes ((''Syntax error at position '' @ string_of_nat i
            @ '': Expected 'SELECT' keyword but found '' @ dquote) @ ''end of input'' @ (dquote
            @ ''. SELECT queries must start with the SELECT keyword.'')) ''end of input''"
      by (rule str_includes_append)
    then show ?thesis
      by (simp add: reportsEndOfInput_def)
  qed
  have rb: "reportsEndOfInput (Error (''Unexpected end of input at index '' @ string_of_nat i))"
    for i
  proof -
    have "str_includes (''Unexpected '' @ ''end of input'' @ ('' at index '' @ string_of_nat i))
            ''end of input''"
      by (rule str_includes_append)
    then show ?thesis
      by (simp add: reportsEndOfInput_def)
  qed
  show ?thesis
  proof (intro conjI impI allI)
    assume "length lexemes \<le> index"
    then show "parse ps lexemes index
        = Some (Inl (Error (''Syntax error at position '' @ string_of_nat index
            @ '': Expected 'SELECT' keyword but found '' @ dquote @ ''end of input'' @ dquote
            @ ''. SELECT queries must start with the SELECT keyword.'')))"
      by (rule a)
  next
    fix w idx1
    assume "index < length lexemes \<and> toLowerCase (lexValue (lexemes ! index)) = ''with''
          \<and> WithClauseParser ps lexemes index = Some (Inr (w, idx1)) \<and> length lexemes \<le> idx1"
    then show "parse ps lexemes index
              = Some (Inl (Error (''Syntax error at position '' @ string_of_nat idx1
                  @ '': Expected 'SELECT' keyword but found '' @ dquote @ ''end of input'' @ dquote
                  @ ''. SELECT queries must start with the SELECT keyword.'')))"
      using a' by blast
  next
    assume "length lexemes \<le> Suc index"
    then show "parseParenSource selectQueryParser lexemes index
          = Some (Inl (Error (''Unexpected end of input at index '' @ string_of_nat (Suc index))))"
      by (rule b)
  next
    fix i
    show "reportsEndOfInput (Error (''Syntax error at position '' @ string_of_nat i
            @ '': Expected 'SELECT' keyword but found '' @ dquote @ ''end of input'' @ dquote
            @ ''. SELECT queries must start with the SELECT keyword.''))"
      by (rule ra)
  next
    fix i
    show "reportsEndOfInput (Error (''Unexpected end of input at index '' @ string_of_nat i))"
      by (rule rb)
  qed
qed

text \<open>
  The empty stream, the stream \<open>with c as ( select a )\<close> that ends after the WITH clause,
  and the stream that ends after an open parenthesis.
\<close>

theorem end_of_input_messages_witness:
  "parse srcClauseParsers [] 0
     = Some (Inl (Error (''Syntax error at position '' @ string_of_nat 0
         @ '': Expected 'SELECT' keyword but found '' @ dquote @ ''end of input'' @ dquote
         @ ''. SELECT queries must start with the SELECT keyword.'')))
   \<and> parse withFromClauseParsers
       [lexeme Keyword ''with'', lexeme Identifier ''c'', lexeme Keyword ''as'',
        lexeme OpenParen ''('', lexeme Keyword ''select'', lexeme Identifier ''a'',
        lexeme CloseParen '')''] 0
     = Some (Inl (Error (''Syntax error at position '' @ string_of_nat 7
         @ '': Expected 'SELECT' keyword but found '' @ dquote @ ''end of input'' @ dquote
         @ ''. SELECT queries must start with the SELECT keyword.'')))
   \<and> (parseParenSource (parse srcClauseParsers) [lexeme OpenParen ''(''] 0
        :: ((ValueComponent SelectClause SelectQuery, unit) SourceComponent \<times> nat) result)
     = Some (Inl (Error (''Unexpected end of input at index '' @ string_of_nat (Suc 0))))
   \<and> string_of_nat 0 = ''0'' \<and> string_of_nat 7 = ''7'' \<and> string_of_nat (Suc 0) = ''1''"
proof -
  let ?lx = "[lexeme Keyword ''with'', lexeme Identifier ''c'', lexeme Keyword ''as'',
        lexeme OpenParen ''('', lexeme Keyword ''select'', lexeme Identifier ''a'',
        lexeme CloseParen '')'']"
  have d: "string_of_nat 0 = ''0''" "string_of_nat 7 = ''7''" "string_of_nat (Suc 0) = ''1''"
    by code_simp+
  have l: "length ([] :: Lexeme list) \<le> 0" "length [lexeme OpenParen ''(''] \<le> Suc 0"
    by simp_all
  have w: "0 < length ?lx" "toLowerCase (lexValue (?lx ! 0)) = ''with''"
    "WithClauseParser withFromClauseParsers ?lx 0
       = Some (Inr (WithNode ''c'' (SubQuerySource
            \<lparr>withClause = None,
               selectClause = SelectClause [BareValue (ColumnReference ''a'')],
               fromClause = None, whereClause = None, groupByClause = None,
               havingClause = None, orderByClause = None, windowFrameClause = None,
               limitClause = None, forClause = None\<rparr>), 7))"
    "length ?lx \<le> 7"
    by code_simp+
  show ?thesis
    using end_of_input_messages [of "[]" 0 srcClauseParsers "parse srcClauseParsers"]
      end_of_input_messages [of ?lx 0 withFromClauseParsers "parse srcClauseParsers"]
      end_of_input_messages [of "[lexeme OpenParen ''('']" 0 srcClauseParsers
        "parse srcClauseParsers"] d l w
    by blast
qed

text \<open>
  The claim as stated fails: on \<open>( select a\<close> the stream ends inside the parenthesised
  source, and the error is \<open>Expected closing parenthesis at index 3\<close>; nothing in it
  says that the end of the input was found.
\<close>

theorem end_of_input_counterexample:
  "(parseParenSource (parse srcClauseParsers)
       [lexeme OpenParen ''('', lexeme Keyword ''select'', lexeme Identifier ''a''] 0
        :: ((ValueComponent SelectClause SelectQuery, unit) SourceComponent \<times> nat) result)
     = Some (Inl (Error ''Expected closing parenthesis at index 3''))
   \<and> \<not> reportsEndOfInput (Error ''Expected closing parenthesis at index 3'')"
  by code_simp

section \<open>Facts about the printer\<close>

lemma fold_preserves:
  assumes "\<And>x s. x \<in> set xs \<Longrightarrow> g (f x s) = g s"
  shows "g (fold f xs s) = g s"
  using assms by (induction xs arbitrary: s) simp_all

lemma appendToken_skip:
  "shouldSkipToken token \<Longrightarrow> appendToken p token level parent lp = lp"
  by (subst appendToken.simps) simp

lemma appendToken_with:
  assumes "\<not> shouldSkipToken token"
    and "containerType token = ''WithClause''" and "importComments p \<noteq> []"
  shows "appendToken p token level parent lp
           = emitImportComments level (importComments p)
               (fold (\<lambda>t. appendToken p t level (Some ''WithClause'')) (innerTokens token)
                  (appendText (tokenText token) lp))"
  using assms by (subst appendToken.simps) simp

text \<open>
  Whatever appending a text and ending a line leave unchanged (the newline string, the
  indentation character and size), appending a token leaves unchanged.
\<close>

lemma appendToken_preserves:
  assumes t: "\<And>t lp. g (appendText t lp) = g lp"
    and n: "\<And>l lp. g (appendNewline l lp) = g lp"
  shows "g (appendToken p token level parent lp) = g lp"
proof (induction p token level parent lp rule: appendToken.induct)
  case (1 p token level parentContainerType lp)
  show ?case
  proof (cases "shouldSkipToken token")
    case True
    then show ?thesis
      by (simp add: appendToken_skip)
  next
    case skip: False
    show ?thesis
    proof (cases "containerType token = ''WithClause'' \<and> importComments p \<noteq> []")
      case True
      have "g (fold (\<lambda>t. appendToken p t level (Some (containerType token)))
              (innerTokens token) (appendText (tokenText token) lp)) = g lp"
        using "1.IH"(1) [OF skip True]
        by (subst fold_preserves [where g = g]) (simp_all add: t)
      moreover have "g (emitImportComments level cs l) = g l" for cs l
        unfolding emitImportComments_def by (rule fold_preserves) (simp add: t n)
      ultimately show ?thesis
        using skip True by (simp add: appendToken_with)
    next
      case nowith: False
      show ?thesis
      proof (cases "tokenType token \<noteq> KeywordToken \<and> tokenType token \<noteq> CommaToken
              \<and> \<not> (tokenType token = OperatorToken \<and> toLowerCase (tokenText token) = ''and'')
              \<and> containerType token \<noteq> ''JoinClause'' \<and> tokenType token \<noteq> CommentToken
              \<and> containerType token = ''CommonTable'' \<and> shouldFormatCteOneline p token")
        case True
        then show ?thesis
          using skip nowith by (subst appendToken.simps) (simp add: t)
      next
        case nocte: False
        define current where "current = length (lines lp) - 1"
        define lp1 where "lp1 =
           (if tokenType token = KeywordToken then handleKeywordToken p token level lp
            else if tokenType token = CommaToken
            then handleCommaToken p token level parentContainerType lp
            else if tokenType token = OperatorToken \<and> toLowerCase (tokenText token) = ''and''
            then handleAndOperatorToken p token level lp
            else if containerType token = ''JoinClause''
            then handleJoinClauseToken p token level lp
            else if tokenType token = CommentToken then handleCommentToken p token lp
            else appendText (tokenText token) lp)"
        define lp2 where "lp2 = fold (\<lambda>t. appendToken p t level (Some (containerType token)))
                    (keywordTokens token) lp1"
        define innerLevel where "innerLevel =
           (if newline p \<noteq> '' '' \<and> lineText (lines lp2 ! current) \<noteq> ''''
               \<and> containerType token \<in> set (indentIncrementContainers p)
            then level + 1 else level)"
        define lp3 where "lp3 = (if innerLevel \<noteq> level then appendNewline innerLevel lp2 else lp2)"
        define lp4 where "lp4 = fold (\<lambda>t. appendToken p t innerLevel (Some (containerType token)))
                    (innerTokens token) lp3"
        note ih_kw = "1.IH"(3) [OF skip nowith nocte current_def lp1_def]
        note ih_in = "1.IH"(4) [OF skip nowith nocte current_def lp1_def lp2_def innerLevel_def
            lp3_def]
        have e: "appendToken p token level parentContainerType lp
                   = (if innerLevel \<noteq> level then appendNewline level lp4 else lp4)"
          unfolding lp4_def lp3_def innerLevel_def lp2_def lp1_def current_def
          by (subst appendToken.simps) (simp only: skip nowith nocte if_False Let_def)
        have n1: "g lp1 = g lp"
          by (simp add: lp1_def handleKeywordToken_def handleCommaToken_def
              handleAndOperatorToken_def handleJoinClauseToken_def handleCommentToken_def t n)
        have n2: "g lp2 = g lp1"
          unfolding lp2_def by (rule fold_preserves) (rule ih_kw)
        have n3: "g lp3 = g lp2"
          by (simp add: lp3_def n)
        have n4: "g lp4 = g lp3"
          unfolding lp4_def by (rule fold_preserves) (rule ih_in)
        show ?thesis
          by (simp add: e n1 n2 n3 n4 n)
      qed
    qed
  qed
qed

lemma appendToken_lpNewline:
  "lpNewline (appendToken p token level parent lp) = lpNewline lp"
  by (rule appendToken_preserves) (simp_all add: appendText_def appendNewline_def)

lemma appendToken_indent:
  "indent (appendToken p token level parent lp) = indent lp"
proof -
  have "(\<lambda>l. (lpIndentSize l, lpIndentChar l)) (appendToken p token level parent lp)
          = (\<lambda>l. (lpIndentSize l, lpIndentChar l)) lp"
    by (rule appendToken_preserves) (simp_all add: appendText_def appendNewline_def)
  then show ?thesis
    by (simp add: indent_def fun_eq_iff)
qed

lemma fold_appendToken_lpNewline:
  "lpNewline (fold (\<lambda>t. appendToken p t level parent) ts lp) = lpNewline lp"
  by (rule fold_preserves) (rule appendToken_lpNewline)

lemma endCurrentLine_snoc [simp]:
  "endCurrentLine nl (ls @ [l]) = ls @ [endLine nl l]"
  by (simp add: endCurrentLine_def)

lemma lines_import_comment:
  "lines (appendText (''    '' @ c) (appendNewline level lp))
     = endCurrentLine (lpNewline lp) (lines lp) @ [\<lparr>lineLevel = level, lineText = ''    '' @ c\<rparr>]"
  by (simp add: appendText_def appendNewline_def endCurrentLine_def)

lemma lpNewline_import_comment:
  "lpNewline (appendText (''    '' @ c) (appendNewline level lp)) = lpNewline lp"
  by (simp add: appendText_def appendNewline_def)

lemma trimEnd_import_comment:
  "trimEnd (''    /* import '' @ n @ ''.cte.sql */'') = ''    /* import '' @ n @ ''.cte.sql */''"
  by (simp add: trimEnd_def isWhitespace_def)

lemma endLine_import_comment:
  "endLine nl \<lparr>lineLevel = level, lineText = ''    /* import '' @ n @ ''.cte.sql */''\<rparr>
     = \<lparr>lineLevel = level, lineText = ''    /* import '' @ n @ ''.cte.sql */'' @ nl\<rparr>"
  unfolding endLine_def using trimEnd_import_comment [of n] by simp

lemma emitImportComments_lines:
  "ns \<noteq> [] \<Longrightarrow>
     lines (emitImportComments level (generateImportComments ns) lp)
       = endCurrentLine (lpNewline lp) (lines lp) @ importCommentLines level (lpNewline lp) ns"
proof (induction level "lpNewline lp" ns arbitrary: lp rule: importCommentLines.induct)
  case (1 level)
  then show ?case by simp
next
  case (2 level n)
  show ?case
    using lines_import_comment [of "''/* import '' @ n @ ''.cte.sql */''" level lp]
    by (simp add: emitImportComments_def generateImportComments_def)
next
  case (3 level n m ns)
  let ?lp' = "appendText (''    '' @ (''/* import '' @ n @ ''.cte.sql */'')) (appendNewline level lp)"
  have nl: "lpNewline ?lp' = lpNewline lp"
    by (rule lpNewline_import_comment)
  have step: "emitImportComments level (generateImportComments (n # m # ns)) lp
                = emitImportComments level (generateImportComments (m # ns)) ?lp'"
    by (simp add: emitImportComments_def generateImportComments_def)
  have ih: "lines (emitImportComments level (generateImportComments (m # ns)) ?lp')
              = endCurrentLine (lpNewline ?lp') (lines ?lp')
                @ importCommentLines level (lpNewline ?lp') (m # ns)"
    using "3.hyps" [of ?lp'] nl by simp
  have l': "lines ?lp' = endCurrentLine (lpNewline lp) (lines lp)
              @ [\<lparr>lineLevel = level, lineText = ''    /* import '' @ n @ ''.cte.sql */''\<rparr>]"
    using lines_import_comment [of "''/* import '' @ n @ ''.cte.sql */''" level lp] by simp
  show ?case
    unfolding step ih nl l' using endLine_import_comment [of "lpNewline lp" level n] by simp
qed

lemma printedLines_append:
  "printedLines lp (xs @ ys) = printedLines lp xs @ printedLines lp ys"
  by (simp add: printedLines_def)

lemma printedLines_indent:
  assumes "indent r = indent lp"
  shows "printedLines r ls = printedLines lp ls"
  unfolding printedLines_def assms by (rule refl)

lemma LinePrinter_print_printedLines:
  "LinePrinter_print lp = trimEnd (printedLines lp (lines lp))"
  by (simp add: LinePrinter_print_def printedLines_def)

lemma printedLines_importCommentLines:
  "printedLines lp (importCommentLines level nl ns) = importCommentText (indent lp level) nl ns"
  by (induction level nl ns rule: importCommentLines.induct) (simp_all add: printedLines_def)

lemma importCommentText_ends:
  "ns \<noteq> [] \<Longrightarrow> \<exists>s. importCommentText ind nl ns = s @ ''/''"
proof (induction ind nl ns rule: importCommentText.induct)
  case (1 ind nl)
  then show ?case by simp
next
  case (2 ind nl n)
  have "importCommentText ind nl [n] = (ind @ ''    /* import '' @ n @ ''.cte.sql *'') @ ''/''"
    by simp
  then show ?case by blast
next
  case (3 ind nl n m ns)
  then obtain s where "importCommentText ind nl (m # ns) = s @ ''/''"
    by auto
  then have "importCommentText ind nl (n # m # ns)
               = (ind @ ''    /* import '' @ n @ ''.cte.sql */'' @ nl @ s) @ ''/''"
    by simp
  then show ?case by blast
qed

lemma trimEnd_slash: "trimEnd (s @ ''/'') = s @ ''/''"
  by (simp add: trimEnd_def isWhitespace_def)

lemma trimEnd_importCommentText:
  assumes "ns \<noteq> []"
  shows "trimEnd (x @ importCommentText ind nl ns) = x @ importCommentText ind nl ns"
proof -
  obtain s where s: "importCommentText ind nl ns = s @ ''/''"
    using importCommentText_ends [OF assms] by blast
  have "trimEnd ((x @ s) @ ''/'') = (x @ s) @ ''/''"
    by (rule trimEnd_slash)
  then show ?thesis
    by (simp add: s)
qed

lemma dependencyFormatter_constructed:
  "newSqlFormatter dependencyOptions = Inr dependencyFormatter"
  by (simp add: newSqlFormatter_def dependencyOptions_def dependencyFormatter_def
      formatterOptions_def truthyPreset_def orElse_def noOptions_def configField_def)

lemma analyseDependencies_on:
  assumes "cteOnelineDependency p" and "isSimpleSelectQuery env sql"
  shows "analyseDependencies env p sql
           = p\<lparr>cteOneline := True,
               importComments := generateImportComments (findDirectlyReferencedCtes env sql)\<rparr>"
  using assms by (simp add: analyseDependencies_def)

lemma onelinePrinter_layout:
  "indentChar (onelinePrinter p) = ''''" "indentSize (onelinePrinter p) = 0"
  "newline (onelinePrinter p) = '' ''"
  by (simp_all add: onelinePrinter_def newSqlPrinter_def noOptions_def orDefault_def)

section \<open>Formatter construction\<close>

text \<open>
  C8 (amended). The constructor of the formatter throws a plain \<open>Error\<close> with the message
  \<open>Invalid preset: name\<close> when the preset name is not empty, is not one of the four valid
  preset names and is not a property name every object inherits; with one of the four
  valid names, with the empty string and without a preset it does not fail.
\<close>

theorem preset_validation:
  "(name \<noteq> '''' \<and> name \<notin> set VALID_PRESETS \<and> name \<notin> set objectPrototypeKeys
      \<longrightarrow> newSqlFormatter (options\<lparr>preset := Some name\<rparr>)
            = Inl (Error (''Invalid preset: '' @ name)))
   \<and> (name \<in> set VALID_PRESETS \<or> name = ''''
      \<longrightarrow> (\<exists>formatter. newSqlFormatter (options\<lparr>preset := Some name\<rparr>) = Inr formatter))
   \<and> (\<exists>formatter. newSqlFormatter (options\<lparr>preset := None\<rparr>) = Inr formatter)"
  by (auto simp add: newSqlFormatter_def truthyPreset_def PRESETS_read_def PRESETS_def
      VALID_PRESETS_def Let_def)

text \<open>The preset names \<open>oracle\<close>, \<open>postgres\<close>, \<open>mysql\<close>, \<open>sqlite\<close> and \<open>sqlserver\<close>.\<close>

theorem preset_validation_witness:
  "newSqlFormatter (formatterOptions (Some ''oracle'') noOptions)
     = Inl (Error (''Invalid preset: '' @ ''oracle''))
   \<and> (\<exists>formatter. newSqlFormatter (formatterOptions (Some ''postgres'') noOptions) = Inr formatter)
   \<and> (\<exists>formatter. newSqlFormatter (formatterOptions (Some ''mysql'') noOptions) = Inr formatter)
   \<and> (\<exists>formatter. newSqlFormatter (formatterOptions (Some ''sqlite'') noOptions) = Inr formatter)
   \<and> (\<exists>formatter. newSqlFormatter (formatterOptions (Some ''sqlserver'') noOptions) = Inr formatter)"
  using preset_validation [of "''oracle''" "formatterOptions None noOptions"]
    preset_validation [of "''postgres''" "formatterOptions None noOptions"]
    preset_validation [of "''mysql''" "formatterOptions None noOptions"]
    preset_validation [of "''sqlite''" "formatterOptions None noOptions"]
    preset_validation [of "''sqlserver''" "formatterOptions None noOptions"]
  by (simp add: formatterOptions_def VALID_PRESETS_def objectPrototypeKeys_def)

text \<open>
  The claim as stated fails: neither the empty string nor \<open>constructor\<close> is one of the four
  preset names, and constructing a formatter with either succeeds. The empty string is read
  as "no preset"; \<open>constructor\<close> is found as an inherited property of the table.
\<close>

theorem empty_preset_counterexample:
  "'''' \<notin> set [''postgres'', ''mysql'', ''sqlite'', ''sqlserver'']
   \<and> newSqlFormatter (formatterOptions (Some '''') noOptions)
     = Inr \<lparr>parserOptions =
              \<lparr>identifierEscape = None, parameterSymbol = None, parameterStyle = None\<rparr>,
            printer = newSqlPrinter noOptions\<rparr>
   \<and> ''constructor'' \<notin> set [''postgres'', ''mysql'', ''sqlite'', ''sqlserver'']
   \<and> newSqlFormatter (formatterOptions (Some ''constructor'') noOptions)
     = Inr \<lparr>parserOptions =
              \<lparr>identifierEscape = None, parameterSymbol = None, parameterStyle = None\<rparr>,
            printer = newSqlPrinter noOptions\<rparr>"
  by (simp add: newSqlFormatter_def truthyPreset_def formatterOptions_def orElse_def noOptions_def
      PRESETS_read_def PRESETS_def objectPrototypeKeys_def configField_def)

section \<open>Dependency mode of the formatter\<close>

text \<open>
  What \<open>format\<close> does in dependency mode, for any simple select query: it switches
  \<open>cteOneline\<close> of the printer on and leaves the set of one-line names as it was, so every
  common table container the printer reaches is rendered by \<open>handleCteOnelineToken\<close>.
\<close>

lemma format_dependency_mode_onelines:
  assumes "cteOnelineDependency (printer formatter)"
    and "isSimpleSelectQuery env sql"
    and "tokenParser_parse env (parserOptions formatter) sql = Inr (root, params)"
    and "tokenType token = ContainerToken"
    and "containerType token = ''CommonTable''"
    and "\<not> shouldSkipToken token"
  shows "\<exists>p. format env formatter sql
                = (Inr (SqlPrinter_print p root 0, params), formatter\<lparr>printer := p\<rparr>)
           \<and> cteOneline p
           \<and> cteOnelineSet p = cteOnelineSet (printer formatter)
           \<and> shouldFormatCteOneline p token
           \<and> appendToken p token level parentContainerType lp
               = appendText (SqlPrinter_print (onelinePrinter p) token level) lp"
proof -
  let ?p = "analyseDependencies env (printer formatter) sql"
  have p: "?p = (printer formatter)\<lparr>cteOneline := True,
               importComments := generateImportComments (findDirectlyReferencedCtes env sql)\<rparr>"
    using assms(1,2) by (rule analyseDependencies_on)
  have f: "format env formatter sql
             = (Inr (SqlPrinter_print ?p root 0, params), formatter\<lparr>printer := ?p\<rparr>)"
    using assms(3) by (simp add: format_def Let_def)
  have s: "shouldFormatCteOneline ?p token"
    by (simp add: p shouldFormatCteOneline_def)
  have a: "appendToken ?p token level parentContainerType lp
               = appendText (SqlPrinter_print (onelinePrinter ?p) token level) lp"
    using assms(4,5,6) s
    by (subst appendToken.simps) (simp add: SqlPrinter_print_def onelinePrinter_layout)
  show ?thesis
    using f s a by (intro exI [of _ ?p]) (simp add: p)
qed


text \<open>
  C4 (amended). In dependency mode, for a simple select query whose dependency graph has
  leaf nodes, the import comments of the printer are one comment \<open>/* import name.cte.sql */\<close>
  per leaf node, in the order of the leaf nodes. For every WITH clause token the printer
  reaches, it emits them after the text and all inner tokens of the WITH clause (after the
  common tables, not after the WITH keyword): the current line is ended with the newline
  string, and each comment follows behind the indentation of the level of the WITH clause
  and four spaces, consecutive comments separated by the newline string. The last comment
  stays the current line, so the text of the next token follows it directly; with the
  newline \<open>" "\<close> everything is on one line.
\<close>

theorem import_comments_follow_with_clause:
  assumes "cteOnelineDependency (printer formatter)"
    and "isSimpleSelectQuery env sql"
    and "buildGraph_leafNodes env sql = Inr leafNodes"
    and "leafNodes \<noteq> []"
    and "containerType token = ''WithClause''"
    and "\<not> shouldSkipToken token"
    and "p = analyseDependencies env (printer formatter) sql"
    and "afterCtes = fold (\<lambda>t. appendToken p t level (Some ''WithClause'')) (innerTokens token)
                       (appendText (tokenText token) lp)"
  shows "importComments p = map (\<lambda>n. ''/* import '' @ n @ ''.cte.sql */'') leafNodes
     \<and> lines (appendToken p token level parentContainerType lp)
         = endCurrentLine (lpNewline lp) (lines afterCtes)
           @ importCommentLines level (lpNewline lp) leafNodes
     \<and> LinePrinter_print (appendToken p token level parentContainerType lp)
         = printedLines lp (endCurrentLine (lpNewline lp) (lines afterCtes))
           @ importCommentText (indent lp level) (lpNewline lp) leafNodes"
proof -
  let ?r = "appendToken p token level parentContainerType lp"
  have c: "importComments p = generateImportComments leafNodes"
    using assms(1,2,3,7) by (simp add: analyseDependencies_def findDirectlyReferencedCtes_def)
  have ne: "importComments p \<noteq> []"
    using c assms(4) by (simp add: generateImportComments_def)
  have a: "?r = emitImportComments level (generateImportComments leafNodes) afterCtes"
    using appendToken_with [OF assms(6,5) ne] c assms(8) by simp
  have nl: "lpNewline afterCtes = lpNewline lp"
    unfolding assms(8) by (simp add: fold_appendToken_lpNewline appendText_def)
  have l: "lines ?r = endCurrentLine (lpNewline lp) (lines afterCtes)
                        @ importCommentLines level (lpNewline lp) leafNodes"
    using a emitImportComments_lines [OF assms(4), of level afterCtes] nl by simp
  have "LinePrinter_print ?r = trimEnd (printedLines lp (lines ?r))"
    using printedLines_indent [OF appendToken_indent]
    by (simp add: LinePrinter_print_printedLines)
  also have "\<dots> = trimEnd (printedLines lp (endCurrentLine (lpNewline lp) (lines afterCtes))
                        @ importCommentText (indent lp level) (lpNewline lp) leafNodes)"
    by (simp add: l printedLines_append printedLines_importCommentLines)
  also have "\<dots> = printedLines lp (endCurrentLine (lpNewline lp) (lines afterCtes))
                        @ importCommentText (indent lp level) (lpNewline lp) leafNodes"
    by (rule trimEnd_importCommentText [OF assms(4)])
  finally have pr: "LinePrinter_print ?r
      = printedLines lp (endCurrentLine (lpNewline lp) (lines afterCtes))
        @ importCommentText (indent lp level) (lpNewline lp) leafNodes" .
  show ?thesis
    using c l pr by (simp add: generateImportComments_def)
qed

text \<open>Scenario 4 of the spec, with an indentation of two spaces per level.\<close>

theorem import_comments_follow_with_clause_witness:
  "importComments (analyseDependencies demoCollaborators (printer dependencyFormatter) scenario4)
     = map (\<lambda>n. ''/* import '' @ n @ ''.cte.sql */'') [''enriched'']
   \<and> lines (appendToken (analyseDependencies demoCollaborators (printer dependencyFormatter) scenario4)
        scenario4With 0 (Some ''SimpleSelectQuery'') (startLinePrinter '' '' 2 lineFeed 0))
     = endCurrentLine (lpNewline (startLinePrinter '' '' 2 lineFeed 0))
         (lines (fold (\<lambda>t. appendToken
                    (analyseDependencies demoCollaborators (printer dependencyFormatter) scenario4)
                    t 0 (Some ''WithClause''))
                  (innerTokens scenario4With)
                  (appendText (tokenText scenario4With) (startLinePrinter '' '' 2 lineFeed 0))))
       @ importCommentLines 0 (lpNewline (startLinePrinter '' '' 2 lineFeed 0)) [''enriched'']
   \<and> LinePrinter_print
       (appendToken (analyseDependencies demoCollaborators (printer dependencyFormatter) scenario4)
          scenario4With 0 (Some ''SimpleSelectQuery'') (startLinePrinter '' '' 2 lineFeed 0))
     = printedLines (startLinePrinter '' '' 2 lineFeed 0)
         (endCurrentLine (lpNewline (startLinePrinter '' '' 2 lineFeed 0))
            (lines (fold (\<lambda>t. appendToken
                    (analyseDependencies demoCollaborators (printer dependencyFormatter) scenario4)
                    t 0 (Some ''WithClause''))
                  (innerTokens scenario4With)
                  (appendText (tokenText scenario4With) (startLinePrinter '' '' 2 lineFeed 0)))))
       @ importCommentText (indent (startLinePrinter '' '' 2 lineFeed 0) 0)
           (lpNewline (startLinePrinter '' '' 2 lineFeed 0)) [''enriched'']"
proof -
  have h: "cteOnelineDependency (printer dependencyFormatter)"
    "isSimpleSelectQuery demoCollaborators scenario4"
    "buildGraph_leafNodes demoCollaborators scenario4 = Inr [''enriched'']"
    "[''enriched''] \<noteq> ([] :: string list)"
    "containerType scenario4With = ''WithClause''"
    "\<not> shouldSkipToken scenario4With"
    by (simp_all add: dependencyFormatter_def newSqlPrinter_def noOptions_def orDefault_def
        demoCollaborators_def scenario4_def scenario4With_def withToken_def clauseToken_def
        shouldSkipToken_def)
  show ?thesis
    by (rule import_comments_follow_with_clause [OF h refl refl])
qed

text \<open>
  The claim as stated fails. With an indentation of two spaces per level, the SQL of
  scenario 4 has the comment after both common tables, not after the WITH keyword; the
  comment starts its line with four spaces at level 0, where one level of indentation is
  two spaces; and the select keyword follows the comment on the same line. With the default
  newline, a single space, the whole SQL is one line.
\<close>

theorem import_comment_layout_counterexample:
  "fst (format demoCollaborators dependencyFormatter scenario4)
     = Inr (''with base_users as (select id from users),'' @ lineFeed
            @ ''enriched as (select id from base_users)'' @ lineFeed
            @ ''    /* import enriched.cte.sql */select'' @ lineFeed
            @ ''  *'' @ lineFeed @ ''from'' @ lineFeed @ ''  enriched'', [])
   \<and> indent (startLinePrinter '' '' 2 lineFeed 0) 1 = ''  ''
   \<and> lines (appendToken (analyseDependencies demoCollaborators (printer dependencyFormatter) scenario4)
        scenario4With 0 (Some ''SimpleSelectQuery'') (startLinePrinter '' '' 2 lineFeed 0))
     = [\<lparr>lineLevel = 0, lineText = ''with base_users as (select id from users),'' @ lineFeed\<rparr>,
        \<lparr>lineLevel = 0, lineText = ''enriched as (select id from base_users)'' @ lineFeed\<rparr>,
        \<lparr>lineLevel = 0, lineText = ''    /* import enriched.cte.sql */''\<rparr>]
   \<and> fst (format demoCollaborators
            (dependencyFormatter\<lparr>printer := (printer dependencyFormatter)
               \<lparr>indentChar := '''', indentSize := 0, newline := '' ''\<rparr>\<rparr>) scenario4)
     = Inr (''with base_users as (select id from users), ''
            @ ''enriched as (select id from base_users) ''
            @ ''    /* import enriched.cte.sql */select * from enriched'', [])"
  by code_simp

text \<open>
  C3. \<open>format\<close> is not a function of the query and the options alone: formatting the
  binary query with a new formatter, and formatting it after the same formatter has
  formatted scenario 4, give different SQL. The second output renders the common table on
  one line and carries the import comment of the earlier query.
\<close>

theorem format_depends_on_earlier_calls:
  "fst (format demoCollaborators dependencyFormatter unionQuery)
     = Inr (''with'' @ lineFeed @ ''  a as ('' @ lineFeed @ ''    select'' @ lineFeed
            @ ''      id'' @ lineFeed @ ''    from'' @ lineFeed @ ''      t'' @ lineFeed
            @ ''  )'' @ lineFeed @ ''select'' @ lineFeed @ ''  id'' @ lineFeed @ ''from'' @ lineFeed
            @ ''  a'' @ lineFeed @ ''union'' @ lineFeed @ ''select'' @ lineFeed @ ''  id'' @ lineFeed
            @ ''from'' @ lineFeed @ ''  u'', [])
   \<and> fst (format demoCollaborators
            (snd (format demoCollaborators dependencyFormatter scenario4)) unionQuery)
     = Inr (''with a as (select id from t)'' @ lineFeed
            @ ''    /* import enriched.cte.sql */select'' @ lineFeed @ ''  id'' @ lineFeed
            @ ''from'' @ lineFeed @ ''  a'' @ lineFeed @ ''union'' @ lineFeed @ ''select'' @ lineFeed
            @ ''  id'' @ lineFeed @ ''from'' @ lineFeed @ ''  u'', [])"
  by code_simp

end
